theory Spec2Isabelle
  imports Main "HOL-Library.Word" "HOL-Library.AList" "HOL-Library.Multiset"
begin

section \<open>Data model of the executor (executor.go)\<close>

text \<open>
  The executor is embedded as pure functions over an explicit environment. Go's
  \<^verbatim>\<open>uint64\<close> and \<^verbatim>\<open>int64\<close> are 64-bit words (an \<^verbatim>\<open>int64\<close> is read with \<open>sint\<close>), the
  platform \<^verbatim>\<open>int\<close> is taken to be 64 bits wide. A Go function returning \<^verbatim>\<open>(v, error)\<close>
  returns \<open>error + 'a\<close>. Two outcomes that are not error values are constructors of
  \<open>error\<close> as well: \<open>Panic\<close>, a run-time panic, and \<open>Blocked\<close>, a goroutine parked on a
  channel receive that no sender can serve (it resumes only when the caller's context
  ends, with the context's error, never with a result).
\<close>

type_synonym uint64 = "64 word"
type_synonym int64 = "64 word"
type_synonym go_time = int

datatype error =
    ErrIndexRequired
  | ErrIndexNotFound
  | ErrFrameNotFound
  | errSliceUnavailable
  | Err string
  | Panic string
  | Blocked

text \<open>Values of \<^verbatim>\<open>call.Args\<close> (a \<^verbatim>\<open>map[string]interface{}\<close>).\<close>

datatype arg =
    AInt64 int64
  | AUint64 uint64
  | AInt64s "int64 list"
  | AUint64s "uint64 list"
  | AString string
  | ABool bool
  | AList "arg list"

type_synonym attrs = "string \<rightharpoonup> arg"

datatype call = Call (Name: string) (Args: "string \<rightharpoonup> arg") (Children: "call list")

record bitmap =
  Bits :: "uint64 set"
  Attrs :: attrs

type_synonym pair = "uint64 \<times> uint64"

record TopOptions =
  opt_N :: int
  opt_Src :: "bitmap option"
  opt_RowIDs :: "uint64 list"
  opt_FilterField :: string
  opt_FilterValues :: "arg list"
  opt_MinThreshold :: uint64
  opt_TanimotoThreshold :: uint64

record fragment =
  Row :: "uint64 \<Rightarrow> bitmap"
  Top :: "TopOptions \<Rightarrow> error + pair list"

record frame =
  RowLabel :: string
  InverseEnabled :: bool
  TimeQuantum :: string
  Frame_SetBit :: "string \<Rightarrow> uint64 \<Rightarrow> uint64 \<Rightarrow> go_time option \<Rightarrow> error + bool"
  Frame_ClearBit :: "string \<Rightarrow> uint64 \<Rightarrow> uint64 \<Rightarrow> go_time option \<Rightarrow> error + bool"
  RowAttrStore_Attrs :: "uint64 \<Rightarrow> error + attrs"
  RowAttrStore_SetAttrs :: "uint64 \<Rightarrow> attrs \<Rightarrow> error option"
  RowAttrStore_SetBulkAttrs :: "(uint64 \<times> attrs) list \<Rightarrow> error option"

record index =
  ColumnLabel :: string
  MaxSlice :: uint64
  MaxInverseSlice :: uint64
  Frames :: "string \<rightharpoonup> frame"
  ColumnAttrStore_Attrs :: "uint64 \<Rightarrow> error + attrs"
  ColumnAttrStore_SetAttrs :: "uint64 \<Rightarrow> attrs \<Rightarrow> error option"

datatype node = Node (Host: string)

text \<open>Results of calls (\<^verbatim>\<open>interface{}\<close>): nil, a bitmap, a count, a pair list, a changed bit.\<close>

datatype "value" = VNil | VBitmap bitmap | VCount uint64 | VPairs "pair list" | VBool bool

text \<open>One \<^verbatim>\<open>internal.QueryResult\<close> of a peer's response, and the request sent by \<^verbatim>\<open>exec\<close>.\<close>

record QueryResult =
  res_Bitmap :: bitmap
  res_N :: uint64
  res_Pairs :: "pair list"
  res_Changed :: bool

record QueryRequest =
  req_Node :: node
  req_Index :: string
  req_Query :: "call list"
  req_Slices :: "uint64 list"
  req_Remote :: bool

record ExecOptions =
  Remote :: bool

record mapResponse =
  mr_node :: node
  mr_slices :: "uint64 list"
  mr_result :: "value"
  mr_err :: "error option"

text \<open>
  The executor with its collaborators, none of which is part of executor.go: the holder
  (indexes, frames, fragments), the cluster (its nodes, the replicas of a slice), the
  peers behind the HTTP client (\<open>Peer\<close>: the answer to a request, an error text or one
  result per call), \<^verbatim>\<open>time.Parse(TimeFormat, _)\<close>, \<^verbatim>\<open>ViewsByTimeRange(ViewStandard, _, _, _)\<close>,
  \<^verbatim>\<open>Call.SupportsInverse\<close>, \<^verbatim>\<open>Call.IsInverse\<close>, \<^verbatim>\<open>Pairs.Add\<close>, \<^verbatim>\<open>sort.Sort(Pairs(_))\<close> and
  the constant \<^verbatim>\<open>DefaultColumnLabel\<close>.
  \<open>Arrival\<close> stands for the scheduler: of the map responses in flight, the position
  (modulo their number) of the one that \<^verbatim>\<open>mapReduce\<close> receives next.
\<close>

record Executor =
  e_Host :: string
  Cluster_Nodes :: "node list"
  FragmentNodes :: "string \<Rightarrow> uint64 \<Rightarrow> node list"
  Holder_Index :: "string \<rightharpoonup> index"
  Holder_Fragment :: "string \<Rightarrow> string \<Rightarrow> string \<Rightarrow> uint64 \<Rightarrow> fragment option"
  Peer :: "QueryRequest \<Rightarrow> string + QueryResult list"
  ParseTime :: "string \<rightharpoonup> go_time"
  ViewsByTimeRange :: "go_time \<Rightarrow> go_time \<Rightarrow> string \<Rightarrow> string list"
  SupportsInverse :: "call \<Rightarrow> bool"
  IsInverse :: "call \<Rightarrow> string \<Rightarrow> string \<Rightarrow> bool"
  Pairs_Add :: "pair list \<Rightarrow> pair list \<Rightarrow> pair list"
  Pairs_Sort :: "pair list \<Rightarrow> pair list"
  DefaultColumnLabel :: string
  Arrival :: "mapResponse list \<Rightarrow> nat"

text \<open>A result together with the peer requests sent while computing it, in order.\<close>

type_synonym 'a io = "(error + 'a) \<times> QueryRequest list"

definition after :: "QueryRequest list \<Rightarrow> 'a io \<Rightarrow> 'a io" where
  "after reqs r = (fst r, reqs @ snd r)"

subsection \<open>Constants and collaborators' accessors\<close>

definition DefaultFrame :: string where
  "DefaultFrame = ''general''"

definition MinThreshold :: uint64 where
  "MinThreshold = 1"

definition ViewStandard :: string where
  "ViewStandard = ''standard''"

definition ViewInverse :: string where
  "ViewInverse = ''inverse''"

text \<open>Modelled from the spec: the constant \<^verbatim>\<open>SliceWidth\<close> is declared outside executor.go;
  the spec fixes a power of two and uses \<^verbatim>\<open>1<<20\<close>.\<close>

definition SliceWidth :: uint64 where
  "SliceWidth = 1048576"

text \<open>Modelled from the spec: \<^verbatim>\<open>Holder.Frame(index, name)\<close> is declared outside executor.go;
  it is the frame of that name in the index of that name, nil when either is absent.\<close>

definition Holder_Frame :: "Executor \<Rightarrow> string \<Rightarrow> string \<Rightarrow> frame option" where
  "Holder_Frame e index name =
     (case Holder_Index e index of None \<Rightarrow> None | Some idx \<Rightarrow> Frames idx name)"

text \<open>Modelled from the spec: the bitmap operations are declared outside executor.go; a
  bitmap is a set of column positions, \<^verbatim>\<open>Merge\<close> across slices is union, and a composed
  bitmap carries no attributes. \<^verbatim>\<open>InvalidateCount\<close> only drops a cached count.\<close>

definition NewBitmap :: bitmap where
  "NewBitmap = \<lparr>Bits = {}, Attrs = Map.empty\<rparr>"

definition Bitmap_Union :: "bitmap \<Rightarrow> bitmap \<Rightarrow> bitmap" where
  "Bitmap_Union a b = \<lparr>Bits = Bits a \<union> Bits b, Attrs = Map.empty\<rparr>"

definition Bitmap_Intersect :: "bitmap \<Rightarrow> bitmap \<Rightarrow> bitmap" where
  "Bitmap_Intersect a b = \<lparr>Bits = Bits a \<inter> Bits b, Attrs = Map.empty\<rparr>"

definition Bitmap_Difference :: "bitmap \<Rightarrow> bitmap \<Rightarrow> bitmap" where
  "Bitmap_Difference a b = \<lparr>Bits = Bits a - Bits b, Attrs = Map.empty\<rparr>"

definition Bitmap_Merge :: "bitmap \<Rightarrow> bitmap \<Rightarrow> bitmap" where
  "Bitmap_Merge a b = a\<lparr>Bits := Bits a \<union> Bits b\<rparr>"

definition Bitmap_Count :: "bitmap \<Rightarrow> uint64" where
  "Bitmap_Count a = of_nat (card (Bits a))"

text \<open>Modelled from the spec: the accessors \<^verbatim>\<open>Call.UintArg\<close> and \<^verbatim>\<open>Call.UintSliceArg\<close> are
  declared outside executor.go. An absent key is \<open>Inr None\<close>; a signed value is cast to
  unsigned (the same word); any other type is an error.\<close>

definition UintArg :: "call \<Rightarrow> string \<Rightarrow> error + uint64 option" where
  "UintArg c key =
     (case Args c key of
        None \<Rightarrow> Inr None
      | Some (AInt64 v) \<Rightarrow> Inr (Some v)
      | Some (AUint64 v) \<Rightarrow> Inr (Some v)
      | Some _ \<Rightarrow> Inl (Err ''could not convert to uint64 in Call.UintArg''))"

definition UintSliceArg :: "call \<Rightarrow> string \<Rightarrow> error + uint64 list option" where
  "UintSliceArg c key =
     (case Args c key of
        None \<Rightarrow> Inr None
      | Some (AUint64s v) \<Rightarrow> Inr (Some v)
      | Some (AInt64s v) \<Rightarrow> Inr (Some v)
      | Some _ \<Rightarrow> Inl (Err ''unexpected type in UintSliceArg''))"

text \<open>\<^verbatim>\<open>s, ok := c.Args[key].(string)\<close>: \<open>None\<close> is \<^verbatim>\<open>ok = false\<close>, where \<^verbatim>\<open>s\<close> is \<^verbatim>\<open>""\<close>.\<close>

definition StringArg :: "call \<Rightarrow> string \<Rightarrow> string option" where
  "StringArg c key = (case Args c key of Some (AString s) \<Rightarrow> Some s | _ \<Rightarrow> None)"

definition orEmpty :: "string option \<Rightarrow> string" where
  "orEmpty s = (case s of None \<Rightarrow> [] | Some v \<Rightarrow> v)"

definition orZero :: "uint64 option \<Rightarrow> uint64" where
  "orZero v = (case v of None \<Rightarrow> 0 | Some n \<Rightarrow> n)"

definition orNil :: "'a list option \<Rightarrow> 'a list" where
  "orNil v = (case v of None \<Rightarrow> [] | Some xs \<Rightarrow> xs)"

section \<open>Argument validation\<close>

text \<open>The loop \<^verbatim>\<open>b[i] = v[i].(int64)\<close>: the unchecked type assertion panics on the first
  element that is not an \<^verbatim>\<open>int64\<close>.\<close>

fun assertInt64s :: "arg list \<Rightarrow> error + int64 list" where
  "assertInt64s [] = Inr []"
| "assertInt64s (AInt64 x # v) =
     (case assertInt64s v of Inl err \<Rightarrow> Inl err | Inr b \<Rightarrow> Inr (x # b))"
| "assertInt64s (_ # v) = Inl (Panic ''interface conversion: interface {} is not int64'')"

text \<open>\<^verbatim>\<open>validateCallArgs\<close> updates \<^verbatim>\<open>c.Args["ids"]\<close> in place; the model returns the call.\<close>

definition validateCallArgs :: "call \<Rightarrow> error + call" where
  "validateCallArgs c =
     (case Args c ''ids'' of
        None \<Rightarrow> Inr c
      | Some (AInt64s _) \<Rightarrow> Inr c
      | Some (AUint64s _) \<Rightarrow> Inr c
      | Some (AList v) \<Rightarrow>
          (case assertInt64s v of
             Inl err \<Rightarrow> Inl err
           | Inr b \<Rightarrow> Inr (Call (Name c) ((Args c)(''ids'' \<mapsto> AInt64s b)) (Children c)))
      | Some _ \<Rightarrow> Inl (Err ''invalid call.Args[ids]''))"

section \<open>Per-slice evaluation\<close>

definition frameArg :: "call \<Rightarrow> string" where
  "frameArg c =
     (let frame = orEmpty (StringArg c ''frame'')
      in if frame = [] then DefaultFrame else frame)"

definition executeBitmapSlice :: "Executor \<Rightarrow> string \<Rightarrow> call \<Rightarrow> uint64 \<Rightarrow> error + bitmap" where
  "executeBitmapSlice e index c sl =
     (case Holder_Index e index of
        None \<Rightarrow> Inl ErrIndexNotFound
      | Some idx \<Rightarrow>
          (let columnLabel = ColumnLabel idx; frame = frameArg c
           in case Holder_Frame e index frame of
                None \<Rightarrow> Inl ErrFrameNotFound
              | Some f \<Rightarrow>
                  (let rowLabel = RowLabel f
                   in case (UintArg c rowLabel, UintArg c columnLabel) of
                        (Inr row, Inr col) \<Rightarrow>
                          if row \<noteq> None \<and> col \<noteq> None
                          then Inl (Err ''Bitmap() cannot specify both row and column values'')
                          else if row = None \<and> col = None
                          then Inl (Err ''Bitmap() must specify either row or column values'')
                          else if col \<noteq> None \<and> \<not> InverseEnabled f
                          then Inl (Err ''Bitmap() cannot retrieve columns unless inverse storage enabled'')
                          else
                            (let view = (if col \<noteq> None then ViewInverse else ViewStandard);
                                 id = (if col \<noteq> None then orZero col else orZero row)
                             in case Holder_Fragment e index frame view sl of
                                  None \<Rightarrow> Inr NewBitmap
                                | Some frag \<Rightarrow> Inr (Row frag id))
                      | _ \<Rightarrow> Inl (Err ''Bitmap() error with arg for col or row''))))"

text \<open>The view whose fragment \<^verbatim>\<open>executeBitmapSlice\<close> reads: the inverse view when the column
  label is given, the standard view otherwise.\<close>

definition bitmapView :: "Executor \<Rightarrow> string \<Rightarrow> call \<Rightarrow> string" where
  "bitmapView e index c =
     (case Holder_Index e index of
        None \<Rightarrow> ViewStandard
      | Some idx \<Rightarrow>
          (case UintArg c (ColumnLabel idx) of
             Inr (Some columnID) \<Rightarrow> ViewInverse
           | _ \<Rightarrow> ViewStandard))"

text \<open>The loop of \<^verbatim>\<open>executeRangeSlice\<close> over the time views: an absent fragment is skipped.\<close>

fun rangeViews :: "Executor \<Rightarrow> string \<Rightarrow> string \<Rightarrow> uint64 \<Rightarrow> uint64 \<Rightarrow> string list \<Rightarrow> bitmap \<Rightarrow> bitmap" where
  "rangeViews e index frame sl rowID [] bm = bm"
| "rangeViews e index frame sl rowID (view # views) bm =
     (case Holder_Fragment e index frame view sl of
        None \<Rightarrow> rangeViews e index frame sl rowID views bm
      | Some f \<Rightarrow> rangeViews e index frame sl rowID views (Bitmap_Union bm (Row f rowID)))"

text \<open>The views of a list whose fragment the holder has for the slice.\<close>

definition presentViews :: "Executor \<Rightarrow> string \<Rightarrow> string \<Rightarrow> uint64 \<Rightarrow> string list \<Rightarrow> string list" where
  "presentViews e index frame sl views =
     filter (\<lambda>view. Holder_Fragment e index frame view sl \<noteq> None) views"

text \<open>In \<^verbatim>\<open>executeRangeSlice\<close> the test before "end time required" reads \<^verbatim>\<open>ok\<close>, which still
  holds the result of the assertion on \<^verbatim>\<open>start\<close>: the assertion on \<^verbatim>\<open>end\<close> discards its own.\<close>

definition executeRangeSlice :: "Executor \<Rightarrow> string \<Rightarrow> call \<Rightarrow> uint64 \<Rightarrow> error + bitmap" where
  "executeRangeSlice e index c sl =
     (let frame = frameArg c
      in case Holder_Frame e index frame of
           None \<Rightarrow> Inl ErrFrameNotFound
         | Some f \<Rightarrow>
             (case UintArg c (RowLabel f) of
                Inl err \<Rightarrow> Inl (Err ''executeRangeSlice - reading row'')
              | Inr row \<Rightarrow>
                  (let rowID = orZero row;
                       ok = (StringArg c ''start'' \<noteq> None);
                       startTimeStr = orEmpty (StringArg c ''start'')
                   in if \<not> ok then Inl (Err ''Range() start time required'')
                      else case ParseTime e startTimeStr of
                        None \<Rightarrow> Inl (Err ''cannot parse Range() start time'')
                      | Some startTime \<Rightarrow>
                          (let endTimeStr = orEmpty (StringArg c ''end'')
                           in if \<not> ok then Inl (Err ''Range() end time required'')
                              else case ParseTime e endTimeStr of
                                None \<Rightarrow> Inl (Err ''cannot parse Range() end time'')
                              | Some endTime \<Rightarrow>
                                  (let q = TimeQuantum f
                                   in if q = [] then Inr NewBitmap
                                      else Inr (rangeViews e index frame sl rowID
                                             (ViewsByTimeRange e startTime endTime q) NewBitmap))))))"

text \<open>
  The dispatcher and the three folds over the children. \<open>foldChildren\<close> is the loop body
  shared by \<^verbatim>\<open>executeDifferenceSlice\<close>, \<^verbatim>\<open>executeIntersectSlice\<close> and \<^verbatim>\<open>executeUnionSlice\<close>:
  it stops at the first child's error, takes the first child's bitmap as it is
  (\<^verbatim>\<open>i == 0\<close>) and combines every later one into \<^verbatim>\<open>other\<close>. Difference and Intersect
  start from a nil pointer, which the first iteration overwrites, their children being
  non-empty; the model starts them from the empty bitmap.
\<close>

function executeBitmapCallSlice :: "Executor \<Rightarrow> string \<Rightarrow> call \<Rightarrow> uint64 \<Rightarrow> error + bitmap"
  and executeDifferenceSlice :: "Executor \<Rightarrow> string \<Rightarrow> call \<Rightarrow> uint64 \<Rightarrow> error + bitmap"
  and executeIntersectSlice :: "Executor \<Rightarrow> string \<Rightarrow> call \<Rightarrow> uint64 \<Rightarrow> error + bitmap"
  and executeUnionSlice :: "Executor \<Rightarrow> string \<Rightarrow> call \<Rightarrow> uint64 \<Rightarrow> error + bitmap"
  and foldChildren :: "Executor \<Rightarrow> string \<Rightarrow> uint64 \<Rightarrow> (bitmap \<Rightarrow> bitmap \<Rightarrow> bitmap) \<Rightarrow> call list \<Rightarrow> nat \<Rightarrow> bitmap \<Rightarrow> error + bitmap"
where
  "executeBitmapCallSlice e index (Call name args children) sl =
     (if name = ''Bitmap'' then executeBitmapSlice e index (Call name args children) sl
      else if name = ''Difference'' then executeDifferenceSlice e index (Call name args children) sl
      else if name = ''Intersect'' then executeIntersectSlice e index (Call name args children) sl
      else if name = ''Range'' then executeRangeSlice e index (Call name args children) sl
      else if name = ''Union'' then executeUnionSlice e index (Call name args children) sl
      else Inl (Err ''unknown call''))"
| "executeDifferenceSlice e index (Call name args children) sl =
     (if length children = 0 then Inl (Err ''empty Difference query is currently not supported'')
      else foldChildren e index sl Bitmap_Difference children 0 NewBitmap)"
| "executeIntersectSlice e index (Call name args children) sl =
     (if length children = 0 then Inl (Err ''empty Intersect query is currently not supported'')
      else foldChildren e index sl Bitmap_Intersect children 0 NewBitmap)"
| "executeUnionSlice e index (Call name args children) sl =
     foldChildren e index sl Bitmap_Union children 0 NewBitmap"
| "foldChildren e index sl combine [] i other = Inr other"
| "foldChildren e index sl combine (input # inputs) i other =
     (case executeBitmapCallSlice e index input sl of
        Inl err \<Rightarrow> Inl err
      | Inr bm \<Rightarrow>
          foldChildren e index sl combine inputs (Suc i)
            (if i = 0 then bm else combine other bm))"
  by pat_completeness auto
termination
  by (relation "measure (\<lambda>x. case x of
        Inl (Inl (e, index, c, sl)) \<Rightarrow> 2 * size c + 1
      | Inl (Inr (e, index, c, sl)) \<Rightarrow> 2 * size c
      | Inr (Inl (e, index, c, sl)) \<Rightarrow> 2 * size c
      | Inr (Inr (Inl (e, index, c, sl))) \<Rightarrow> 2 * size c
      | Inr (Inr (Inr (e, index, sl, combine, inputs, i, other))) \<Rightarrow>
          2 * size_list size inputs)")
    simp_all

definition ListArg :: "call \<Rightarrow> string \<Rightarrow> arg list" where
  "ListArg c key = (case Args c key of Some (AList v) \<Rightarrow> v | _ \<Rightarrow> [])"

definition executeTopNSlice :: "Executor \<Rightarrow> string \<Rightarrow> call \<Rightarrow> uint64 \<Rightarrow> error + pair list" where
  "executeTopNSlice e index c sl =
     (let frame = orEmpty (StringArg c ''frame'')
      in case UintArg c ''n'' of
           Inl err \<Rightarrow> Inl (Err ''executeTopNSlice: n'')
         | Inr n \<Rightarrow>
        (let field = orEmpty (StringArg c ''field'')
         in case UintSliceArg c ''ids'' of
              Inl err \<Rightarrow> Inl (Err ''executeTopNSlice: ids'')
            | Inr rowIDs \<Rightarrow>
        (case UintArg c ''threshold'' of
           Inl err \<Rightarrow> Inl (Err ''executeTopNSlice: threshold'')
         | Inr minThreshold \<Rightarrow>
        (let filters = ListArg c ''filters''
         in case UintArg c ''tanimotoThreshold'' of
              Inl err \<Rightarrow> Inl (Err ''executeTopNSlice: tanimotoThreshold'')
            | Inr tanimotoThreshold \<Rightarrow>
        (case (if length (Children c) = 1
               then (case executeBitmapCallSlice e index (hd (Children c)) sl of
                       Inl err \<Rightarrow> Inl err | Inr bm \<Rightarrow> Inr (Some bm))
               else if length (Children c) > 1
               then Inl (Err ''TopN() can only have one input bitmap'')
               else Inr None) of
           Inl err \<Rightarrow> Inl err
         | Inr src \<Rightarrow>
        (let frame = (if frame = [] then DefaultFrame else frame)
         in case Holder_Fragment e index frame ViewStandard sl of
              None \<Rightarrow> Inr []
            | Some f \<Rightarrow>
                (let minThreshold = (if orZero minThreshold \<le> 0 then MinThreshold
                                     else orZero minThreshold)
                 in if orZero tanimotoThreshold > 100
                    then Inl (Err ''Tanimoto Threshold is from 1 to 100 only'')
                    else Top f \<lparr>opt_N = sint (orZero n), opt_Src = src,
                                 opt_RowIDs = orNil rowIDs, opt_FilterField = field,
                                 opt_FilterValues = filters, opt_MinThreshold = minThreshold,
                                 opt_TanimotoThreshold = orZero tanimotoThreshold\<rparr>)))))))"

section \<open>Remote execution\<close>

definition io_bind :: "'a io \<Rightarrow> ('a \<Rightarrow> 'b io) \<Rightarrow> 'b io" where
  "io_bind m k = (case fst m of Inl err \<Rightarrow> (Inl err, snd m) | Inr v \<Rightarrow> after (snd m) (k v))"

text \<open>The switch of \<^verbatim>\<open>exec\<close> on \<^verbatim>\<open>call.Name\<close>; \<^verbatim>\<open>pb.Results[i]\<close> panics when the response
  is shorter than the call list, except for the two attribute calls, which do not read it.\<close>

definition decodeResult :: "string \<Rightarrow> QueryResult list \<Rightarrow> error + value" where
  "decodeResult name rs =
     (if name = ''SetRowAttrs'' \<or> name = ''SetColumnAttrs'' then Inr VNil
      else case rs of
        [] \<Rightarrow> Inl (Panic ''index out of range'')
      | r # _ \<Rightarrow>
          Inr (if name = ''TopN'' then VPairs (res_Pairs r)
               else if name = ''Count'' then VCount (res_N r)
               else if name = ''SetBit'' then VBool (res_Changed r)
               else if name = ''ClearBit'' then VBool (res_Changed r)
               else VBitmap (res_Bitmap r)))"

fun decodeResults :: "call list \<Rightarrow> QueryResult list \<Rightarrow> error + value list" where
  "decodeResults [] rs = Inr []"
| "decodeResults (c # cs) rs =
     (case decodeResult (Name c) rs of
        Inl err \<Rightarrow> Inl err
      | Inr v \<Rightarrow>
          (case decodeResults cs (tl rs) of Inl err \<Rightarrow> Inl err | Inr vs \<Rightarrow> Inr (v # vs)))"

text \<open>\<^verbatim>\<open>exec\<close> always sets \<^verbatim>\<open>Remote: true\<close> on the request, whatever \<^verbatim>\<open>opt\<close> holds. An
  error of the transport, a status other than 200 and a non-blank \<^verbatim>\<open>Err\<close> of the
  response are the \<open>Inl\<close> answers of \<open>Peer\<close>.\<close>

definition exec :: "Executor \<Rightarrow> node \<Rightarrow> string \<Rightarrow> call list \<Rightarrow> uint64 list \<Rightarrow> ExecOptions \<Rightarrow> value list io" where
  "exec e node index calls slices opt =
     (let req = \<lparr>req_Node = node, req_Index = index, req_Query = calls,
                 req_Slices = slices, req_Remote = True\<rparr>
      in (case Peer e req of
            Inl msg \<Rightarrow> Inl (Err msg)
          | Inr results \<Rightarrow> decodeResults calls results,
          [req]))"

text \<open>Modelled from the spec: \<^verbatim>\<open>Nodes.FilterHost\<close>, \<^verbatim>\<open>Nodes.Filter\<close>, \<^verbatim>\<open>Nodes.Contains\<close> and
  \<^verbatim>\<open>Cluster.NodeByHost\<close> are declared outside executor.go: every other cluster node, the
  candidates without the failing node, membership in the candidates, the node of a
  host (nil when there is none).\<close>

definition Nodes_FilterHost :: "node list \<Rightarrow> string \<Rightarrow> node list" where
  "Nodes_FilterHost a host = filter (\<lambda>n. Host n \<noteq> host) a"

definition Nodes_Filter :: "node list \<Rightarrow> node \<Rightarrow> node list" where
  "Nodes_Filter a n = filter (\<lambda>m. m \<noteq> n) a"

definition Nodes_Contains :: "node list \<Rightarrow> node \<Rightarrow> bool" where
  "Nodes_Contains a n = (n \<in> set a)"

definition NodeByHost :: "Executor \<Rightarrow> string \<Rightarrow> node option" where
  "NodeByHost e host = find (\<lambda>n. Host n = host) (Cluster_Nodes e)"

text \<open>The block "Execute on remote nodes in parallel ... Return first error" that ends
  \<^verbatim>\<open>executeSetRowAttrs\<close>, \<^verbatim>\<open>executeBulkSetRowAttrs\<close> and \<^verbatim>\<open>executeSetColumnAttrs\<close>: one
  goroutine per other node sends the request; the first error received is returned.
  The model receives the answers in the order of the nodes.\<close>

fun firstError :: "(error + 'a) list \<Rightarrow> error + unit" where
  "firstError [] = Inr ()"
| "firstError (Inl err # rs) = Inl err"
| "firstError (Inr _ # rs) = firstError rs"

definition execOnRemoteNodes :: "Executor \<Rightarrow> string \<Rightarrow> call list \<Rightarrow> ExecOptions \<Rightarrow> unit io" where
  "execOnRemoteNodes e index calls opt =
     (let nodes = Nodes_FilterHost (Cluster_Nodes e) (e_Host e);
          resp = map (\<lambda>node. exec e node index calls [] opt) nodes
      in (firstError (map fst resp), concat (map snd resp)))"

section \<open>Mutations\<close>

text \<open>The replica loop of \<^verbatim>\<open>executeClearBitView\<close>, with \<^verbatim>\<open>ret\<close> as accumulator.\<close>

fun clearBitReplicas :: "Executor \<Rightarrow> string \<Rightarrow> call \<Rightarrow> frame \<Rightarrow> string \<Rightarrow> uint64 \<Rightarrow> uint64 \<Rightarrow> ExecOptions \<Rightarrow> node list \<Rightarrow> bool \<Rightarrow> bool io" where
  "clearBitReplicas e index c f view colID rowID opt [] ret = (Inr ret, [])"
| "clearBitReplicas e index c f view colID rowID opt (node # nodes) ret =
     (if Host node = e_Host e then
        (case Frame_ClearBit f view rowID colID None of
           Inl err \<Rightarrow> (Inl err, [])
         | Inr val \<Rightarrow>
             clearBitReplicas e index c f view colID rowID opt nodes (if val then True else ret))
      else if Remote opt then clearBitReplicas e index c f view colID rowID opt nodes ret
      else io_bind (exec e node index [c] [] opt)
             (\<lambda>res. case res of
                VBool b # _ \<Rightarrow> clearBitReplicas e index c f view colID rowID opt nodes b
              | _ \<Rightarrow> (Inl (Panic ''interface conversion: interface {} is not bool''), [])))"

definition executeClearBitView :: "Executor \<Rightarrow> string \<Rightarrow> call \<Rightarrow> frame \<Rightarrow> string \<Rightarrow> uint64 \<Rightarrow> uint64 \<Rightarrow> ExecOptions \<Rightarrow> bool io" where
  "executeClearBitView e index c f view colID rowID opt =
     (let sl = colID div SliceWidth
      in clearBitReplicas e index c f view colID rowID opt (FragmentNodes e index sl) False)"

definition executeClearBit :: "Executor \<Rightarrow> string \<Rightarrow> call \<Rightarrow> ExecOptions \<Rightarrow> bool io" where
  "executeClearBit e index c opt =
     (let view = orEmpty (StringArg c ''view'')
      in case StringArg c ''frame'' of
           None \<Rightarrow> (Inl (Err ''ClearBit() frame required''), [])
         | Some frame \<Rightarrow>
        (case Holder_Index e index of
           None \<Rightarrow> (Inl ErrIndexNotFound, [])
         | Some idx \<Rightarrow>
        (case Frames idx frame of
           None \<Rightarrow> (Inl ErrFrameNotFound, [])
         | Some f \<Rightarrow>
        (let columnLabel = ColumnLabel idx; rowLabel = RowLabel f
         in case UintArg c rowLabel of
              Inl err \<Rightarrow> (Inl (Err ''reading ClearBit() row''), [])
            | Inr None \<Rightarrow> (Inl (Err ''ClearBit() row field required''), [])
            | Inr (Some rowID) \<Rightarrow>
        (case UintArg c columnLabel of
           Inl err \<Rightarrow> (Inl (Err ''reading ClearBit() column''), [])
         | Inr None \<Rightarrow> (Inl (Err ''ClearBit col field required''), [])
         | Inr (Some colID) \<Rightarrow>
             if view = ViewStandard then executeClearBitView e index c f view colID rowID opt
             else if view = ViewInverse then executeClearBitView e index c f view rowID colID opt
             else if view = [] then
               io_bind (executeClearBitView e index c f ViewStandard colID rowID opt)
                 (\<lambda>changed.
                    let ret = changed
                    in if InverseEnabled f then
                         io_bind (executeClearBitView e index c f ViewInverse rowID colID opt)
                           (\<lambda>changed. (Inr (if changed then True else ret), []))
                       else (Inr ret, []))
             else (Inl (Err ''invalid view''), []))))))"

text \<open>The replica loop of \<^verbatim>\<open>executeSetBitView\<close>, with \<^verbatim>\<open>ret\<close> as accumulator.\<close>

fun setBitReplicas :: "Executor \<Rightarrow> string \<Rightarrow> call \<Rightarrow> frame \<Rightarrow> string \<Rightarrow> uint64 \<Rightarrow> uint64 \<Rightarrow> go_time option \<Rightarrow> ExecOptions \<Rightarrow> node list \<Rightarrow> bool \<Rightarrow> bool io" where
  "setBitReplicas e index c f view colID rowID timestamp opt [] ret = (Inr ret, [])"
| "setBitReplicas e index c f view colID rowID timestamp opt (node # nodes) ret =
     (if Host node = e_Host e then
        (case Frame_SetBit f view rowID colID timestamp of
           Inl err \<Rightarrow> (Inl err, [])
         | Inr val \<Rightarrow>
             setBitReplicas e index c f view colID rowID timestamp opt nodes
               (if val then True else ret))
      else if Remote opt then setBitReplicas e index c f view colID rowID timestamp opt nodes ret
      else io_bind (exec e node index [c] [] opt)
             (\<lambda>res. case res of
                VBool b # _ \<Rightarrow> setBitReplicas e index c f view colID rowID timestamp opt nodes b
              | _ \<Rightarrow> (Inl (Panic ''interface conversion: interface {} is not bool''), [])))"

definition executeSetBitView :: "Executor \<Rightarrow> string \<Rightarrow> call \<Rightarrow> frame \<Rightarrow> string \<Rightarrow> uint64 \<Rightarrow> uint64 \<Rightarrow> go_time option \<Rightarrow> ExecOptions \<Rightarrow> bool io" where
  "executeSetBitView e index c f view colID rowID timestamp opt =
     (let sl = colID div SliceWidth
      in setBitReplicas e index c f view colID rowID timestamp opt (FragmentNodes e index sl) False)"

definition executeSetBit :: "Executor \<Rightarrow> string \<Rightarrow> call \<Rightarrow> ExecOptions \<Rightarrow> bool io" where
  "executeSetBit e index c opt =
     (let view = orEmpty (StringArg c ''view'')
      in case StringArg c ''frame'' of
           None \<Rightarrow> (Inl (Err ''SetBit() field required: frame''), [])
         | Some frame \<Rightarrow>
        (case Holder_Index e index of
           None \<Rightarrow> (Inl ErrIndexNotFound, [])
         | Some idx \<Rightarrow>
        (case Frames idx frame of
           None \<Rightarrow> (Inl ErrFrameNotFound, [])
         | Some f \<Rightarrow>
        (let columnLabel = ColumnLabel idx; rowLabel = RowLabel f
         in case UintArg c rowLabel of
              Inl err \<Rightarrow> (Inl (Err ''reading SetBit() row''), [])
            | Inr None \<Rightarrow> (Inl (Err ''SetBit() row field required''), [])
            | Inr (Some rowID) \<Rightarrow>
        (case UintArg c columnLabel of
           Inl err \<Rightarrow> (Inl (Err ''reading SetBit() column''), [])
         | Inr None \<Rightarrow> (Inl (Err ''SetBit() column field required''), [])
         | Inr (Some colID) \<Rightarrow>
        (case (case StringArg c ''timestamp'' of
                 None \<Rightarrow> Inr None
               | Some sTimestamp \<Rightarrow>
                   (case ParseTime e sTimestamp of
                      None \<Rightarrow> Inl (Err ''invalid date'')
                    | Some t \<Rightarrow> Inr (Some t))) of
           Inl err \<Rightarrow> (Inl err, [])
         | Inr timestamp \<Rightarrow>
             if view = ViewStandard
             then executeSetBitView e index c f view colID rowID timestamp opt
             else if view = ViewInverse
             then executeSetBitView e index c f view rowID colID timestamp opt
             else if view = [] then
               io_bind (executeSetBitView e index c f ViewStandard colID rowID timestamp opt)
                 (\<lambda>changed.
                    let ret = changed
                    in if InverseEnabled f then
                         io_bind (executeSetBitView e index c f ViewInverse rowID colID timestamp opt)
                           (\<lambda>changed. (Inr (if changed then True else ret), []))
                       else (Inr ret, []))
             else (Inl (Err ''invalid view''), [])))))))"

definition executeSetRowAttrs :: "Executor \<Rightarrow> string \<Rightarrow> call \<Rightarrow> ExecOptions \<Rightarrow> unit io" where
  "executeSetRowAttrs e index c opt =
     (case StringArg c ''frame'' of
        None \<Rightarrow> (Inl (Err ''SetRowAttrs() frame required''), [])
      | Some frameName \<Rightarrow>
     (case Holder_Frame e index frameName of
        None \<Rightarrow> (Inl ErrFrameNotFound, [])
      | Some frame \<Rightarrow>
     (let rowLabel = RowLabel frame
      in case UintArg c rowLabel of
           Inl err \<Rightarrow> (Inl (Err ''reading SetRowAttrs() row''), [])
         | Inr None \<Rightarrow> (Inl (Err ''SetRowAttrs() row field required''), [])
         | Inr (Some rowID) \<Rightarrow>
             (let attrs = (Args c)(''frame'' := None, rowLabel := None)
              in case RowAttrStore_SetAttrs frame rowID attrs of
                   Some err \<Rightarrow> (Inl err, [])
                 | None \<Rightarrow>
                     if Remote opt then (Inr (), [])
                     else execOnRemoteNodes e index [c] opt))))"

text \<open>The map \<^verbatim>\<open>m\<close> of \<^verbatim>\<open>executeBulkSetRowAttrs\<close>, frame to row to attributes, as association
  lists in the order of first insertion (Go leaves the order of the later \<^verbatim>\<open>range m\<close> open).\<close>

type_synonym bulkAttrs = "(string \<times> (uint64 \<times> attrs) list) list"

fun bulkCollect :: "Executor \<Rightarrow> string \<Rightarrow> call list \<Rightarrow> bulkAttrs \<Rightarrow> error + bulkAttrs" where
  "bulkCollect e index [] m = Inr m"
| "bulkCollect e index (c # calls) m =
     (case StringArg c ''frame'' of
        None \<Rightarrow> Inl (Err ''SetRowAttrs() frame required'')
      | Some frame \<Rightarrow>
     (case Holder_Frame e index frame of
        None \<Rightarrow> Inl ErrFrameNotFound
      | Some f \<Rightarrow>
     (let rowLabel = RowLabel f
      in case UintArg c rowLabel of
           Inl err \<Rightarrow> Inl (Err ''reading SetRowAttrs() row'')
         | Inr None \<Rightarrow> Inl (Err ''SetRowAttrs row field required'')
         | Inr (Some rowID) \<Rightarrow>
             (let attrs = (Args c)(''frame'' := None, rowLabel := None);
                  frameMap = (case map_of m frame of None \<Rightarrow> [] | Some fm \<Rightarrow> fm);
                  frameMap = (case map_of frameMap rowID of
                                None \<Rightarrow> AList.update rowID attrs frameMap
                              | Some attr \<Rightarrow> AList.update rowID (attr ++ attrs) frameMap)
              in bulkCollect e index calls (AList.update frame frameMap m)))))"

fun bulkInsert :: "Executor \<Rightarrow> string \<Rightarrow> bulkAttrs \<Rightarrow> error option" where
  "bulkInsert e index [] = None"
| "bulkInsert e index ((name, frameMap) # m) =
     (case Holder_Frame e index name of
        None \<Rightarrow> Some ErrFrameNotFound
      | Some frame \<Rightarrow>
          (case RowAttrStore_SetBulkAttrs frame frameMap of
             Some err \<Rightarrow> Some err
           | None \<Rightarrow> bulkInsert e index m))"

definition executeBulkSetRowAttrs :: "Executor \<Rightarrow> string \<Rightarrow> call list \<Rightarrow> ExecOptions \<Rightarrow> value list io" where
  "executeBulkSetRowAttrs e index calls opt =
     (case bulkCollect e index calls [] of
        Inl err \<Rightarrow> (Inl err, [])
      | Inr m \<Rightarrow>
          (case bulkInsert e index m of
             Some err \<Rightarrow> (Inl err, [])
           | None \<Rightarrow>
               if Remote opt then (Inr (replicate (length calls) VNil), [])
               else io_bind (execOnRemoteNodes e index calls opt)
                      (\<lambda>_. (Inr (replicate (length calls) VNil), []))))"

definition executeSetColumnAttrs :: "Executor \<Rightarrow> string \<Rightarrow> call \<Rightarrow> ExecOptions \<Rightarrow> unit io" where
  "executeSetColumnAttrs e index c opt =
     (case Holder_Index e index of
        None \<Rightarrow> (Inl ErrIndexNotFound, [])
      | Some idx \<Rightarrow>
          (case (case UintArg c ''id'' of
                   Inr (Some id') \<Rightarrow> Inr (id', ''id'')
                 | _ \<Rightarrow>
                     (let columnLabel = ColumnLabel idx
                      in case UintArg c columnLabel of
                           Inr (Some col) \<Rightarrow> Inr (col, columnLabel)
                         | _ \<Rightarrow> Inl (Err ''reading SetColumnAttrs() id/columnLabel errs''))) of
             Inl err \<Rightarrow> (Inl err, [])
           | Inr (id', colName) \<Rightarrow>
               (let attrs = (Args c)(colName := None)
                in case ColumnAttrStore_SetAttrs idx id' attrs of
                     Some err \<Rightarrow> (Inl err, [])
                   | None \<Rightarrow>
                       if Remote opt then (Inr (), [])
                       else execOnRemoteNodes e index [c] opt)))"

section \<open>Map and reduce across the cluster\<close>

type_synonym mapFunc = "uint64 \<Rightarrow> error + value"
type_synonym reduceFunc = "value \<Rightarrow> value \<Rightarrow> error + value"

text \<open>\<^verbatim>\<open>slicesByNode\<close>: every slice goes to its first replica that is a candidate; the map
  from node to slices is an association list in the order of first insertion.\<close>

fun firstCandidate :: "node list \<Rightarrow> node list \<Rightarrow> node option" where
  "firstCandidate nodes [] = None"
| "firstCandidate nodes (node # replicas) =
     (if Nodes_Contains nodes node then Some node else firstCandidate nodes replicas)"

fun slicesByNodeLoop :: "Executor \<Rightarrow> node list \<Rightarrow> string \<Rightarrow> uint64 list \<Rightarrow> (node \<times> uint64 list) list \<Rightarrow> error + (node \<times> uint64 list) list" where
  "slicesByNodeLoop e nodes index [] m = Inr m"
| "slicesByNodeLoop e nodes index (sl # slices) m =
     (case firstCandidate nodes (FragmentNodes e index sl) of
        None \<Rightarrow> Inl errSliceUnavailable
      | Some node \<Rightarrow>
          slicesByNodeLoop e nodes index slices
            (AList.update node ((case map_of m node of None \<Rightarrow> [] | Some ss \<Rightarrow> ss) @ [sl]) m))"

definition slicesByNode :: "Executor \<Rightarrow> node list \<Rightarrow> string \<Rightarrow> uint64 list \<Rightarrow> error + (node \<times> uint64 list) list" where
  "slicesByNode e nodes index slices = slicesByNodeLoop e nodes index slices []"

text \<open>\<^verbatim>\<open>mapperLocal\<close> starts one goroutine per slice and reduces the answers as they
  arrive, returning the first error received; the model receives them in the order of
  the slices. Its receive loop tests the count only after a receive, so it parks on an
  empty slice list.\<close>

fun mapperLocalLoop :: "mapFunc \<Rightarrow> reduceFunc \<Rightarrow> uint64 list \<Rightarrow> value \<Rightarrow> error + value" where
  "mapperLocalLoop mapFn reduceFn [] result = Inr result"
| "mapperLocalLoop mapFn reduceFn (sl # slices) result =
     (case mapFn sl of
        Inl err \<Rightarrow> Inl err
      | Inr v \<Rightarrow>
          (case reduceFn result v of
             Inl err \<Rightarrow> Inl err
           | Inr result \<Rightarrow> mapperLocalLoop mapFn reduceFn slices result))"

definition mapperLocal :: "uint64 list \<Rightarrow> mapFunc \<Rightarrow> reduceFunc \<Rightarrow> error + value" where
  "mapperLocal slices mapFn reduceFn =
     (if slices = [] then Inl Blocked else mapperLocalLoop mapFn reduceFn slices VNil)"

text \<open>The goroutine that \<^verbatim>\<open>mapper\<close> starts for one node: the response it will send on
  the channel, and the request it sends to a peer. \<^verbatim>\<open>mapper\<close> returns the responses in
  flight.\<close>

definition mapTask :: "Executor \<Rightarrow> string \<Rightarrow> call \<Rightarrow> ExecOptions \<Rightarrow> mapFunc \<Rightarrow> reduceFunc \<Rightarrow> node \<times> uint64 list \<Rightarrow> mapResponse \<times> QueryRequest list" where
  "mapTask e index c opt mapFn reduceFn task =
     (let n = fst task; nodeSlices = snd task;
          resp = \<lparr>mr_node = n, mr_slices = nodeSlices, mr_result = VNil, mr_err = None\<rparr>
      in if Host n = e_Host e then
           (case mapperLocal nodeSlices mapFn reduceFn of
              Inl err \<Rightarrow> (resp\<lparr>mr_err := Some err\<rparr>, [])
            | Inr v \<Rightarrow> (resp\<lparr>mr_result := v\<rparr>, []))
         else if \<not> Remote opt then
           (let r = exec e n index [c] nodeSlices opt
            in (case fst r of
                  Inl err \<Rightarrow> resp\<lparr>mr_err := Some err\<rparr>
                | Inr results \<Rightarrow>
                    (if length results > 0 then resp\<lparr>mr_result := hd results\<rparr> else resp),
                snd r))
         else (resp, []))"

definition mapper :: "Executor \<Rightarrow> node list \<Rightarrow> string \<Rightarrow> uint64 list \<Rightarrow> call \<Rightarrow> ExecOptions \<Rightarrow> mapFunc \<Rightarrow> reduceFunc \<Rightarrow> mapResponse list io" where
  "mapper e nodes index slices c opt mapFn reduceFn =
     (case slicesByNode e nodes index slices of
        Inl err \<Rightarrow> (Inl err, [])
      | Inr m \<Rightarrow>
          (let started = map (mapTask e index c opt mapFn reduceFn) m
           in (Inr (map fst started), concat (map snd started))))"

text \<open>
  The receive loop of \<^verbatim>\<open>mapReduce\<close>. \<open>inflight\<close> holds the responses of the goroutines
  started and not yet received; \<open>Arrival\<close> chooses the next one. With nothing in
  flight the \<^verbatim>\<open>select\<close> has no sender to wait for. A panic inside a goroutine ends the
  process; it is not an error that the loop could retry.
\<close>

definition isPanic :: "error \<Rightarrow> bool" where
  "isPanic err = (case err of Panic _ \<Rightarrow> True | _ \<Rightarrow> False)"

lemma firstCandidate_mem: "firstCandidate nodes replicas = Some n \<Longrightarrow> n \<in> set nodes"
  by (induction replicas) (auto simp: Nodes_Contains_def split: if_splits)

lemma update_keys_subset: "fst ` set (AList.update k v al) \<subseteq> insert k (fst ` set al)"
proof -
  have "set (map fst (AList.update k v al)) \<subseteq> insert k (set (map fst al))"
    by (subst update_keys) auto
  then show ?thesis
    by (simp only: set_map)
qed

lemma slicesByNodeLoop_keys:
  "slicesByNodeLoop e nodes index slices m = Inr m' \<Longrightarrow> fst ` set m' \<subseteq> fst ` set m \<union> set nodes"
proof (induction slices arbitrary: m)
  case Nil
  then show ?case by auto
next
  case (Cons sl slices)
  then obtain node where fc: "firstCandidate nodes (FragmentNodes e index sl) = Some node"
    by (auto split: option.splits)
  let ?m = "AList.update node ((case map_of m node of None \<Rightarrow> [] | Some ss \<Rightarrow> ss) @ [sl]) m"
  from Cons.prems fc have "slicesByNodeLoop e nodes index slices ?m = Inr m'"
    by simp
  then have "fst ` set m' \<subseteq> fst ` set ?m \<union> set nodes"
    by (rule Cons.IH)
  moreover have "fst ` set ?m \<subseteq> insert node (fst ` set m)"
    by (rule update_keys_subset)
  moreover have "node \<in> set nodes"
    using fc by (rule firstCandidate_mem)
  ultimately show ?case by blast
qed

lemma mapTask_node: "mr_node (fst (mapTask e index c opt mapFn reduceFn task)) = fst task"
  by (simp add: mapTask_def Let_def split: sum.splits)

lemma mapper_nodes:
  assumes "fst (mapper e nodes index slices c opt mapFn reduceFn) = Inr started"
  shows "mr_node ` set started \<subseteq> set nodes"
proof -
  from assms obtain m where m: "slicesByNode e nodes index slices = Inr m"
    and st: "started = map fst (map (mapTask e index c opt mapFn reduceFn) m)"
    by (auto simp: mapper_def Let_def split: sum.splits)
  have "fst ` set m \<subseteq> set nodes"
    using slicesByNodeLoop_keys [of e nodes index slices "[]" m] m
    by (simp add: slicesByNode_def)
  then show ?thesis
    by (auto simp: st mapTask_node)
qed

lemma filter_without_nth:
  assumes "i < length xs"
  shows "length (filter P (take i xs @ drop (Suc i) xs)) + (if P (xs ! i) then 1 else 0)
         = length (filter P xs)"
proof -
  have "xs = take i xs @ xs ! i # drop (Suc i) xs"
    using assms by (rule id_take_nth_drop)
  then have "filter P xs = filter P (take i xs @ xs ! i # drop (Suc i) xs)"
    by simp
  then show ?thesis by simp
qed

lemma length_without_nth:
  "i < length xs \<Longrightarrow> length (take i xs @ drop (Suc i) xs) < length xs"
  by simp

function mapReduceLoop :: "Executor \<Rightarrow> string \<Rightarrow> call \<Rightarrow> ExecOptions \<Rightarrow> mapFunc \<Rightarrow> reduceFunc \<Rightarrow> nat \<Rightarrow> node list \<Rightarrow> mapResponse list \<Rightarrow> value \<Rightarrow> nat \<Rightarrow> value io" where
  "mapReduceLoop e index c opt mapFn reduceFn nslices nodes inflight result maxSlice =
     (if inflight = [] then (Inl Blocked, [])
      else
        (let i = Arrival e inflight mod length inflight;
             resp = inflight ! i;
             others = take i inflight @ drop (Suc i) inflight
         in case mr_err resp of
              Some err \<Rightarrow>
                if isPanic err then (Inl err, [])
                else
                  (let nodes = Nodes_Filter nodes (mr_node resp);
                       m = mapper e nodes index (mr_slices resp) c opt mapFn reduceFn
                   in case fst m of
                        Inl err' \<Rightarrow>
                          if err' = errSliceUnavailable then (Inl err, snd m)
                          else (Inl err', snd m)
                      | Inr started \<Rightarrow>
                          after (snd m)
                            (mapReduceLoop e index c opt mapFn reduceFn nslices nodes
                               (others @ started) result maxSlice))
            | None \<Rightarrow>
                (case reduceFn result (mr_result resp) of
                   Inl err \<Rightarrow> (Inl err, [])
                 | Inr result \<Rightarrow>
                     (let maxSlice = maxSlice + length (mr_slices resp)
                      in if maxSlice \<ge> nslices then (Inr result, [])
                         else mapReduceLoop e index c opt mapFn reduceFn nslices nodes
                                others result maxSlice))))"
  by pat_completeness auto
termination
proof (relation "measures
    [\<lambda>(e, index, c, opt, mapFn, reduceFn, nslices, nodes, inflight, result, maxSlice).
        length nodes,
     \<lambda>(e, index, c, opt, mapFn, reduceFn, nslices, nodes, inflight, result, maxSlice).
        length (filter (\<lambda>r. mr_node r \<notin> set nodes) inflight),
     \<lambda>(e, index, c, opt, mapFn, reduceFn, nslices, nodes, inflight, result, maxSlice).
        length inflight]", goal_cases)
  case 1
  show ?case by simp
next
  case (2 e index c opt mapFn reduceFn nslices nodes inflight result maxSlice i resp others result' maxSlice')
  have i: "i < length inflight"
    using \<open>inflight \<noteq> []\<close> \<open>i = Arrival e inflight mod length inflight\<close> by simp
  have others: "others = take i inflight @ drop (Suc i) inflight"
    by (rule 2(4))
  have "length (filter (\<lambda>r. mr_node r \<notin> set nodes) others)
        \<le> length (filter (\<lambda>r. mr_node r \<notin> set nodes) inflight)"
    unfolding others
    using filter_without_nth [OF i, of "\<lambda>r. mr_node r \<notin> set nodes"] by arith
  moreover have "length others < length inflight"
    unfolding others using i by (rule length_without_nth)
  ultimately show ?case by auto
next
  case (3 e index c opt mapFn reduceFn nslices nodes inflight result maxSlice i resp others err nodes' m started)
  have i: "i < length inflight"
    using \<open>inflight \<noteq> []\<close> \<open>i = Arrival e inflight mod length inflight\<close> by simp
  have resp: "resp = inflight ! i"
    by (rule 3(3))
  have others: "others = take i inflight @ drop (Suc i) inflight"
    by (rule 3(4))
  have nodes': "nodes' = Nodes_Filter nodes (mr_node resp)"
    by (rule 3(7))
  have started: "fst (mapper e nodes' index (mr_slices resp) c opt mapFn reduceFn) = Inr started"
    using 3(8,9) by simp
  define dead where "dead = (\<lambda>r :: mapResponse. mr_node r \<notin> set nodes)"
  show ?case
  proof (cases "mr_node resp \<in> set nodes")
    case True
    then have "length nodes' < length nodes"
      unfolding nodes' Nodes_Filter_def by (auto intro!: length_filter_less)
    then show ?thesis by simp
  next
    case False
    then have same: "nodes' = nodes"
      unfolding nodes' Nodes_Filter_def by (auto simp: filter_id_conv)
    have "mr_node ` set started \<subseteq> set nodes"
      using mapper_nodes [OF started] same by simp
    then have live: "filter dead started = []"
      by (auto simp: dead_def filter_empty_conv)
    have "dead (inflight ! i)"
      using False resp by (simp add: dead_def)
    then have "length (filter dead others) + 1 = length (filter dead inflight)"
      unfolding others using filter_without_nth [OF i, of dead] by simp
    then have "length (filter dead (others @ started)) < length (filter dead inflight)"
      using live by simp
    then show ?thesis
      using same by (simp add: dead_def)
  qed
qed

declare mapReduceLoop.simps [simp del]

text \<open>The candidate nodes that \<^verbatim>\<open>mapReduce\<close> starts with: the cluster for the coordinator,
  the local node alone for a forwarded query (a nil entry, when the host is no node of
  the cluster, matches no replica and is left out).\<close>

definition startNodes :: "Executor \<Rightarrow> ExecOptions \<Rightarrow> node list" where
  "startNodes e opt =
     (if \<not> Remote opt then Cluster_Nodes e
      else (case NodeByHost e (e_Host e) of None \<Rightarrow> [] | Some n \<Rightarrow> [n]))"

definition mapReduce :: "Executor \<Rightarrow> string \<Rightarrow> uint64 list \<Rightarrow> call \<Rightarrow> ExecOptions \<Rightarrow> mapFunc \<Rightarrow> reduceFunc \<Rightarrow> value io" where
  "mapReduce e index slices c opt mapFn reduceFn =
     (let nodes = startNodes e opt
      in io_bind (mapper e nodes index slices c opt mapFn reduceFn)
           (\<lambda>inflight. mapReduceLoop e index c opt mapFn reduceFn (length slices) nodes
                          inflight VNil 0))"


section \<open>Read calls\<close>

text \<open>The three reducers. A type assertion without \<^verbatim>\<open>ok\<close> panics on another type.\<close>

definition reduceBitmap :: reduceFunc where
  "reduceBitmap prev v =
     (let other = (case prev of VBitmap b \<Rightarrow> b | _ \<Rightarrow> NewBitmap)
      in case v of
           VBitmap b \<Rightarrow> Inr (VBitmap (Bitmap_Merge other b))
         | _ \<Rightarrow> Inl (Panic ''interface conversion: interface {} is not *Bitmap''))"

definition reduceCount :: reduceFunc where
  "reduceCount prev v =
     (let other = (case prev of VCount n \<Rightarrow> n | _ \<Rightarrow> 0)
      in case v of
           VCount n \<Rightarrow> Inr (VCount (other + n))
         | _ \<Rightarrow> Inl (Panic ''interface conversion: interface {} is not uint64''))"

definition reducePairs :: "Executor \<Rightarrow> reduceFunc" where
  "reducePairs e prev v =
     (let other = (case prev of VPairs ps \<Rightarrow> ps | _ \<Rightarrow> [])
      in case v of
           VPairs ps \<Rightarrow> Inr (VPairs (Pairs_Add e other ps))
         | _ \<Rightarrow> Inl (Panic ''interface conversion: interface {} is not []Pair''))"

definition attachAttrs :: "bitmap option \<Rightarrow> attrs \<Rightarrow> bitmap option io" where
  "attachAttrs bm attrs =
     (case bm of
        None \<Rightarrow> (Inl (Panic ''nil pointer dereference''), [])
      | Some b \<Rightarrow> (Inr (Some (b\<lparr>Attrs := attrs\<rparr>)), []))"

text \<open>The closure \<^verbatim>\<open>mapFn\<close> of \<^verbatim>\<open>executeBitmapCall\<close>.\<close>

definition bitmapMapFn :: "Executor \<Rightarrow> string \<Rightarrow> call \<Rightarrow> mapFunc" where
  "bitmapMapFn e index c sl =
     (case executeBitmapCallSlice e index c sl of
        Inl err \<Rightarrow> Inl err
      | Inr bm \<Rightarrow> Inr (VBitmap bm))"

definition executeBitmapCall :: "Executor \<Rightarrow> string \<Rightarrow> call \<Rightarrow> uint64 list \<Rightarrow> ExecOptions \<Rightarrow> bitmap option io" where
  "executeBitmapCall e index c slices opt =
     io_bind
       (mapReduce e index slices c opt (bitmapMapFn e index c) reduceBitmap)
       (\<lambda>other.
          let bm = (case other of VBitmap b \<Rightarrow> Some b | _ \<Rightarrow> None)
          in if Name c = ''Bitmap'' then
               (case Holder_Index e index of
                  None \<Rightarrow> (Inr bm, [])
                | Some idx \<Rightarrow>
                    (let columnLabel = ColumnLabel idx
                     in case UintArg c columnLabel of
                          Inr (Some columnID) \<Rightarrow>
                            (case ColumnAttrStore_Attrs idx columnID of
                               Inl err \<Rightarrow> (Inl err, [])
                             | Inr attrs \<Rightarrow> attachAttrs bm attrs)
                        | Inl err \<Rightarrow> (Inl err, [])
                        | Inr None \<Rightarrow>
                            (let frame = orEmpty (StringArg c ''frame'')
                             in case Frames idx frame of
                                  None \<Rightarrow> (Inr bm, [])
                                | Some fr \<Rightarrow>
                                    (case UintArg c (RowLabel fr) of
                                       Inl err \<Rightarrow> (Inl err, [])
                                     | Inr rowID \<Rightarrow>
                                         (case RowAttrStore_Attrs fr (orZero rowID) of
                                            Inl err \<Rightarrow> (Inl err, [])
                                          | Inr attrs \<Rightarrow> attachAttrs bm attrs)))))
             else (Inr bm, []))"

definition executeCount :: "Executor \<Rightarrow> string \<Rightarrow> call \<Rightarrow> uint64 list \<Rightarrow> ExecOptions \<Rightarrow> uint64 io" where
  "executeCount e index c slices opt =
     (if length (Children c) = 0 then (Inl (Err ''Count() requires an input bitmap''), [])
      else if length (Children c) > 1
      then (Inl (Err ''Count() only accepts a single bitmap input''), [])
      else io_bind
             (mapReduce e index slices c opt
                (\<lambda>sl. case executeBitmapCallSlice e index (hd (Children c)) sl of
                         Inl err \<Rightarrow> Inl err | Inr bm \<Rightarrow> Inr (VCount (Bitmap_Count bm)))
                reduceCount)
             (\<lambda>result. (Inr (case result of VCount n \<Rightarrow> n | _ \<Rightarrow> 0), [])))"

definition executeTopNSlices :: "Executor \<Rightarrow> string \<Rightarrow> call \<Rightarrow> uint64 list \<Rightarrow> ExecOptions \<Rightarrow> pair list io" where
  "executeTopNSlices e index c slices opt =
     io_bind
       (mapReduce e index slices c opt
          (\<lambda>sl. case executeTopNSlice e index c sl of
                   Inl err \<Rightarrow> Inl err | Inr ps \<Rightarrow> Inr (VPairs ps))
          (reducePairs e))
       (\<lambda>other.
          let results = (case other of VPairs ps \<Rightarrow> ps | _ \<Rightarrow> [])
          in (Inr (Pairs_Sort e results), []))"

text \<open>Modelled from the spec: \<^verbatim>\<open>Pairs.Keys\<close> is declared outside executor.go; a pair is a
  row ID with its count, and the keys are the row IDs.\<close>

definition Pairs_Keys :: "pair list \<Rightarrow> uint64 list" where
  "Pairs_Keys ps = map fst ps"

text \<open>
  \<^verbatim>\<open>executeTopN\<close>. The guard of the truncation converts \<^verbatim>\<open>n\<close> to \<^verbatim>\<open>int\<close>, the slice expression
  \<^verbatim>\<open>trimmedList[0:n]\<close> does not: a bound beyond the capacity panics, and an \<^verbatim>\<open>n\<close> that is
  negative as an \<^verbatim>\<open>int\<close> is beyond every capacity.
\<close>

definition executeTopN :: "Executor \<Rightarrow> string \<Rightarrow> call \<Rightarrow> uint64 list \<Rightarrow> ExecOptions \<Rightarrow> pair list io" where
  "executeTopN e index c slices opt =
     (case UintSliceArg c ''ids'' of
        Inl err \<Rightarrow> (Inl (Err ''executeTopN: ids''), [])
      | Inr rowIDs \<Rightarrow>
     (case UintArg c ''n'' of
        Inl err \<Rightarrow> (Inl (Err ''executeTopN: n''), [])
      | Inr n \<Rightarrow>
          io_bind (executeTopNSlices e index c slices opt)
            (\<lambda>pairs.
               if length pairs = 0 \<or> length (orNil rowIDs) > 0 \<or> Remote opt
               then (Inr pairs, [])
               else
                 (let ids = sort (Pairs_Keys pairs);
                      other = Call (Name c) ((Args c)(''ids'' \<mapsto> AUint64s ids)) (Children c)
                  in io_bind (executeTopNSlices e index other slices opt)
                       (\<lambda>trimmedList.
                          if orZero n \<noteq> 0 \<and> sint (orZero n) < int (length trimmedList)
                          then (if unat (orZero n) \<le> length trimmedList
                                then (Inr (take (unat (orZero n)) trimmedList), [])
                                else (Inl (Panic ''slice bounds out of range''), []))
                          else (Inr trimmedList, []))))))"

text \<open>The last statements of \<^verbatim>\<open>executeTopN\<close> on their own: the guarded slice expression
  \<^verbatim>\<open>trimmedList[0:n]\<close> and the return of the list.\<close>

definition topNTrim :: "uint64 \<Rightarrow> pair list \<Rightarrow> pair list io" where
  "topNTrim n trimmedList =
     (if n \<noteq> 0 \<and> sint n < int (length trimmedList)
      then (if unat n \<le> length trimmedList
            then (Inr (take (unat n) trimmedList), [])
            else (Inl (Panic ''slice bounds out of range''), []))
      else (Inr trimmedList, []))"

text \<open>
  The two phases as the specification words them, for a call whose \<^verbatim>\<open>ids\<close> have been read:
  the exact refetch runs when phase 1 returned pairs, no candidate row is given and the
  query is not a forwarded one, and \<open>finish\<close> is what is done with its result. The
  truncation in the specification's words: the result is cut to \<^verbatim>\<open>n\<close> pairs when \<^verbatim>\<open>n\<close> is
  not zero and the result is longer.
\<close>

definition topNTwoPhase :: "Executor \<Rightarrow> string \<Rightarrow> call \<Rightarrow> uint64 list \<Rightarrow> ExecOptions \<Rightarrow> uint64 list \<Rightarrow> (pair list \<Rightarrow> pair list io) \<Rightarrow> pair list io" where
  "topNTwoPhase e index c slices opt ids finish =
     io_bind (executeTopNSlices e index c slices opt)
       (\<lambda>pairs.
          if pairs \<noteq> [] \<and> ids = [] \<and> \<not> Remote opt then
            io_bind
              (executeTopNSlices e index
                 (Call (Name c) ((Args c)(''ids'' \<mapsto> AUint64s (sort (map fst pairs))))
                    (Children c))
                 slices opt)
              finish
          else (Inr pairs, []))"

definition truncatePairs :: "uint64 \<Rightarrow> pair list \<Rightarrow> pair list" where
  "truncatePairs n exact = (if n \<noteq> 0 \<and> unat n < length exact then take (unat n) exact else exact)"

text \<open>The error of a result, if any.\<close>

definition errorOf :: "error + 'a \<Rightarrow> error option" where
  "errorOf r = (case r of Inl err \<Rightarrow> Some err | Inr _ \<Rightarrow> None)"

section \<open>Dispatch and the top level\<close>

definition executeCall :: "Executor \<Rightarrow> string \<Rightarrow> call \<Rightarrow> uint64 list \<Rightarrow> ExecOptions \<Rightarrow> value io" where
  "executeCall e index c0 slices opt =
     (case validateCallArgs c0 of
        Inl err \<Rightarrow> (Inl err, [])
      | Inr c \<Rightarrow>
          if Name c = ''ClearBit''
          then io_bind (executeClearBit e index c opt) (\<lambda>b. (Inr (VBool b), []))
          else if Name c = ''Count''
          then io_bind (executeCount e index c slices opt) (\<lambda>n. (Inr (VCount n), []))
          else if Name c = ''SetBit''
          then io_bind (executeSetBit e index c opt) (\<lambda>b. (Inr (VBool b), []))
          else if Name c = ''SetRowAttrs''
          then io_bind (executeSetRowAttrs e index c opt) (\<lambda>_. (Inr VNil, []))
          else if Name c = ''SetColumnAttrs''
          then io_bind (executeSetColumnAttrs e index c opt) (\<lambda>_. (Inr VNil, []))
          else if Name c = ''TopN''
          then io_bind (executeTopN e index c slices opt) (\<lambda>ps. (Inr (VPairs ps), []))
          else io_bind (executeBitmapCall e index c slices opt)
                 (\<lambda>bm. (Inr (case bm of None \<Rightarrow> VNil | Some b \<Rightarrow> VBitmap b), [])))"

fun allSetRowAttrs :: "call list \<Rightarrow> bool" where
  "allSetRowAttrs [] = True"
| "allSetRowAttrs (call # calls) =
     (if Name call \<noteq> ''SetRowAttrs'' then False else allSetRowAttrs calls)"

definition hasOnlySetRowAttrs :: "call list \<Rightarrow> bool" where
  "hasOnlySetRowAttrs calls = (if length calls = 0 then False else allSetRowAttrs calls)"

fun anyNeedsSlices :: "call list \<Rightarrow> bool" where
  "anyNeedsSlices [] = False"
| "anyNeedsSlices (call # calls) =
     (if Name call = ''ClearBit'' \<or> Name call = ''SetBit'' \<or> Name call = ''SetRowAttrs''
         \<or> Name call = ''SetColumnAttrs''
      then anyNeedsSlices calls
      else True)"

definition needsSlices :: "call list \<Rightarrow> bool" where
  "needsSlices calls = (if length calls = 0 then False else anyNeedsSlices calls)"

text \<open>The serial loop of \<^verbatim>\<open>Execute\<close>. The variable \<^verbatim>\<open>slices\<close> is assigned inside the loop and
  keeps its value for the calls that follow.\<close>

fun executeCalls :: "Executor \<Rightarrow> string \<Rightarrow> call list \<Rightarrow> uint64 list \<Rightarrow> uint64 list \<Rightarrow> string \<Rightarrow> bool \<Rightarrow> ExecOptions \<Rightarrow> value list io" where
  "executeCalls e index [] slices inverseSlices columnLabel needs opt = (Inr [], [])"
| "executeCalls e index (call # calls) slices inverseSlices columnLabel needs opt =
     (case (if SupportsInverse e call \<and> needs then
              (case Holder_Frame e index (frameArg call) of
                 None \<Rightarrow> Inl ErrFrameNotFound
               | Some f \<Rightarrow>
                   Inr (if IsInverse e call (RowLabel f) columnLabel then inverseSlices
                        else slices))
            else Inr slices) of
        Inl err \<Rightarrow> (Inl err, [])
      | Inr slices \<Rightarrow>
          io_bind (executeCall e index call slices opt)
            (\<lambda>v. io_bind (executeCalls e index calls slices inverseSlices columnLabel needs opt)
                    (\<lambda>results. (Inr (v # results), []))))"

text \<open>
  \<^verbatim>\<open>Execute\<close>. \<^verbatim>\<open>Index.MaxSlice\<close> and \<^verbatim>\<open>Index.MaxInverseSlice\<close> are called on the index before
  the nil test; both are declared outside executor.go, and the model lets the nil test
  decide, as the source intends.
\<close>

definition allSlices :: "uint64 \<Rightarrow> uint64 list" where
  "allSlices maxSlice = map of_nat [0 ..< unat (maxSlice + 1)]"

definition Execute :: "Executor \<Rightarrow> string \<Rightarrow> call list \<Rightarrow> uint64 list \<Rightarrow> ExecOptions \<Rightarrow> value list io" where
  "Execute e index calls slices opt =
     (if index = [] then (Inl ErrIndexRequired, [])
      else
        (let needs = needsSlices calls
         in case (if length slices = 0 \<and> needs then
                    (case Holder_Index e index of
                       None \<Rightarrow> Inl ErrIndexNotFound
                     | Some idx \<Rightarrow>
                         Inr (allSlices (MaxSlice idx), allSlices (MaxInverseSlice idx),
                              ColumnLabel idx))
                  else Inr (slices, [], DefaultColumnLabel e)) of
              Inl err \<Rightarrow> (Inl err, [])
            | Inr (slices, inverseSlices, columnLabel) \<Rightarrow>
                if hasOnlySetRowAttrs calls then executeBulkSetRowAttrs e index calls opt
                else executeCalls e index calls slices inverseSlices columnLabel needs opt))"

section \<open>A cluster of two nodes\<close>

text \<open>
  The executor of node \<open>a\<close> in a cluster of the nodes \<open>a\<close> and \<open>b\<close>, used where a property
  is evaluated on a concrete input. Slice 0 is replicated on both nodes, with \<open>a\<close> first;
  every other slice lives on \<open>b\<close>. The index \<open>i\<close> has the frame \<open>f\<close>, whose only fragment
  on \<open>a\<close> is the standard view of slice 0; its \<^verbatim>\<open>Top\<close> answers from cached counts unless
  candidate rows are given, and then with their exact counts. A local bit mutation
  reports a change; the peer answers every call with an unchanged, empty result.
\<close>

definition exampleFrame :: frame where
  "exampleFrame =
     \<lparr>RowLabel = ''rowID'', InverseEnabled = False, TimeQuantum = ''D'',
      Frame_SetBit = (\<lambda>view rowID colID timestamp. Inr True),
      Frame_ClearBit = (\<lambda>view rowID colID timestamp. Inr True),
      RowAttrStore_Attrs = (\<lambda>rowID. Inr Map.empty),
      RowAttrStore_SetAttrs = (\<lambda>rowID attrs. None),
      RowAttrStore_SetBulkAttrs = (\<lambda>m. None)\<rparr>"

definition exampleIndex :: index where
  "exampleIndex =
     \<lparr>ColumnLabel = ''columnID'', MaxSlice = 0, MaxInverseSlice = 0,
      Frames = [''f'' \<mapsto> exampleFrame],
      ColumnAttrStore_Attrs = (\<lambda>columnID. Inr Map.empty),
      ColumnAttrStore_SetAttrs = (\<lambda>columnID attrs. None)\<rparr>"

definition exampleFragment :: fragment where
  "exampleFragment =
     \<lparr>Row = (\<lambda>rowID. \<lparr>Bits = {rowID}, Attrs = Map.empty\<rparr>),
      Top = (\<lambda>opts. Inr (if opt_RowIDs opts = [] then [(1, 5), (2, 3)]
                         else filter (\<lambda>p. fst p \<in> set (opt_RowIDs opts)) [(1, 7), (2, 4)]))\<rparr>"

definition exampleExecutor :: Executor where
  "exampleExecutor =
     \<lparr>e_Host = ''a'',
      Cluster_Nodes = [Node ''a'', Node ''b''],
      FragmentNodes = (\<lambda>index sl. if sl = 0 then [Node ''a'', Node ''b''] else [Node ''b'']),
      Holder_Index = [''i'' \<mapsto> exampleIndex],
      Holder_Fragment = (\<lambda>index frame view sl.
         if index = ''i'' \<and> frame = ''f'' \<and> view = ''standard'' \<and> sl = 0
         then Some exampleFragment else None),
      Peer = (\<lambda>req. Inr (map (\<lambda>c. \<lparr>res_Bitmap = NewBitmap, res_N = 0, res_Pairs = [],
                                        res_Changed = False\<rparr>) (req_Query req))),
      ParseTime = [''2017-01-01T00:00'' \<mapsto> 0, ''2017-01-03T00:00'' \<mapsto> 2880],
      ViewsByTimeRange = (\<lambda>start end q. [''standard_20170101'', ''standard_20170102'']),
      SupportsInverse = (\<lambda>c. Name c = ''Bitmap'' \<or> Name c = ''TopN''),
      IsInverse = (\<lambda>c rowLabel columnLabel. Args c columnLabel \<noteq> None),
      Pairs_Add = (\<lambda>a b. a @ b),
      Pairs_Sort = (\<lambda>ps. ps),
      DefaultColumnLabel = ''columnID'',
      Arrival = (\<lambda>inflight. 0)\<rparr>"

lemmas ex_defs = exampleExecutor_def exampleIndex_def exampleFrame_def exampleFragment_def

text \<open>\<^verbatim>\<open>SetBit(frame="f", rowID=7, columnID=5)\<close> and the \<^verbatim>\<open>ClearBit\<close> of the same bit: column 5
  is in slice 0, whose replicas are \<open>a\<close>, then \<open>b\<close>.\<close>

definition setBit57 :: call where
  "setBit57 = Call ''SetBit'' [''frame'' \<mapsto> AString ''f'', ''rowID'' \<mapsto> AUint64 7,
                               ''columnID'' \<mapsto> AUint64 5] []"

definition clearBit57 :: call where
  "clearBit57 = Call ''ClearBit'' [''frame'' \<mapsto> AString ''f'', ''rowID'' \<mapsto> AUint64 7,
                                   ''columnID'' \<mapsto> AUint64 5] []"

text \<open>\<^verbatim>\<open>Bitmap(frame="f", rowID=1)\<close>, and the response of a node whose request failed.\<close>

definition bitmapRow1 :: call where
  "bitmapRow1 = Call ''Bitmap'' [''frame'' \<mapsto> AString ''f'', ''rowID'' \<mapsto> AUint64 1] []"


text \<open>\<^verbatim>\<open>TopN\<close> on the frame \<open>f\<close>: with an empty \<^verbatim>\<open>ids\<close> list, with \<^verbatim>\<open>n=1\<close>, and with \<^verbatim>\<open>n=-1\<close>; and
  a \<^verbatim>\<open>Range\<close> over two days.\<close>

definition topNEmptyIds :: call where
  "topNEmptyIds = Call ''TopN'' [''frame'' \<mapsto> AString ''f'', ''ids'' \<mapsto> AUint64s []] []"

definition topNFirst :: call where
  "topNFirst = Call ''TopN'' [''frame'' \<mapsto> AString ''f'', ''n'' \<mapsto> AUint64 1] []"

definition topNNegative :: call where
  "topNNegative = Call ''TopN'' [''frame'' \<mapsto> AString ''f'', ''n'' \<mapsto> AInt64 (- 1)] []"

definition rangeJanuary :: call where
  "rangeJanuary = Call ''Range'' [''frame'' \<mapsto> AString ''f'', ''rowID'' \<mapsto> AUint64 9,
       ''start'' \<mapsto> AString ''2017-01-01T00:00'', ''end'' \<mapsto> AString ''2017-01-03T00:00''] []"

text \<open>The same executor over a holder that has, for every slice, the inverse view and
  the view of the second day, and no other fragment.\<close>

definition otherViewsExecutor :: Executor where
  "otherViewsExecutor =
     exampleExecutor\<lparr>Holder_Fragment := (\<lambda>index frame view sl.
        if view = ''inverse'' \<or> view = ''standard_20170102'' then Some exampleFragment
        else None)\<rparr>"

section \<open>Properties\<close>

subsection \<open>The empty query\<close>

text \<open>
  C10. \<^verbatim>\<open>Execute\<close> on a query without calls and a non-empty index name returns the empty
  result list and no error, whatever slices are passed: for no calls
  \<^verbatim>\<open>hasOnlySetRowAttrs\<close> is false, so the bulk path is not taken, and \<^verbatim>\<open>needsSlices\<close> is
  false, so no slices are enumerated. No request is sent either.
\<close>

theorem Execute_no_calls:
  "index \<noteq> [] \<Longrightarrow>
   \<not> hasOnlySetRowAttrs [] \<and> \<not> needsSlices [] \<and> Execute e index [] slices opt = (Inr [], [])"
  by (simp add: Execute_def hasOnlySetRowAttrs_def needsSlices_def)

theorem Execute_no_calls_witness:
  "''i'' \<noteq> [] \<and> Execute exampleExecutor ''i'' [] [] \<lparr>Remote = False\<rparr> = (Inr [], [])"
  using Execute_no_calls [of "''i''" exampleExecutor "[]" "\<lparr>Remote = False\<rparr>"] by simp

subsection \<open>Argument validation\<close>

text \<open>A list of signed integers is accepted and coerced element by element; a panic
  comes from a heterogeneous list with an element of another type, and from nothing else.\<close>

lemma assertInt64s_accepts: "assertInt64s (map AInt64 xs) = Inr xs"
  by (induction xs) simp_all

lemma validateCallArgs_coerces:
  "Args c ''ids'' = Some (AList (map AInt64 xs)) \<Longrightarrow>
   validateCallArgs c = Inr (Call (Name c) ((Args c)(''ids'' \<mapsto> AInt64s xs)) (Children c))"
  by (simp add: validateCallArgs_def assertInt64s_accepts)

lemma assertInt64s_panic:
  "assertInt64s v = Inl err \<Longrightarrow> isPanic err \<and> (\<exists>a \<in> set v. \<forall>x. a \<noteq> AInt64 x)"
  by (induction v rule: assertInt64s.induct) (auto simp: isPanic_def split: sum.splits)

lemma validateCallArgs_panic_only:
  "validateCallArgs c = Inl (Panic msg) \<Longrightarrow>
   \<exists>v. Args c ''ids'' = Some (AList v) \<and> (\<exists>a \<in> set v. \<forall>x. a \<noteq> AInt64 x)"
  by (auto simp: validateCallArgs_def split: option.splits arg.splits sum.splits
        dest: assertInt64s_panic)

text \<open>
  C6. The claim: validation of an \<^verbatim>\<open>ids\<close> argument never crashes; a heterogeneous list with
  an element that is not a signed integer yields an error. The code asserts
  \<^verbatim>\<open>v[i].(int64)\<close> without the \<^verbatim>\<open>ok\<close> result: on \<^verbatim>\<open>ids=[1, "x"]\<close> it panics instead of
  returning the error of its \<^verbatim>\<open>default\<close> branch.
\<close>

theorem validateCallArgs_panics:
  "validateCallArgs (Call ''TopN'' [''ids'' \<mapsto> AList [AInt64 1, AString ''x'']] [])
   = Inl (Panic ''interface conversion: interface {} is not int64'')"
  by (simp add: validateCallArgs_def)

subsection \<open>Per-slice evaluation without children\<close>

text \<open>
  C7. With an empty children list, on every slice, \<^verbatim>\<open>Union\<close> evaluates to the empty bitmap
  while \<^verbatim>\<open>Intersect\<close> and \<^verbatim>\<open>Difference\<close> return their user error; this holds for the three
  evaluators and for the dispatcher that reaches them by name.
\<close>

theorem empty_children:
  "executeUnionSlice e index (Call name args []) sl = Inr NewBitmap
   \<and> executeIntersectSlice e index (Call name args []) sl
       = Inl (Err ''empty Intersect query is currently not supported'')
   \<and> executeDifferenceSlice e index (Call name args []) sl
       = Inl (Err ''empty Difference query is currently not supported'')
   \<and> executeBitmapCallSlice e index (Call ''Union'' args []) sl = Inr NewBitmap
   \<and> executeBitmapCallSlice e index (Call ''Intersect'' args []) sl
       = Inl (Err ''empty Intersect query is currently not supported'')
   \<and> executeBitmapCallSlice e index (Call ''Difference'' args []) sl
       = Inl (Err ''empty Difference query is currently not supported'')"
  by simp

subsection \<open>Range without an end time\<close>

text \<open>
  C5. The claim: a \<^verbatim>\<open>Range\<close> call whose \<^verbatim>\<open>start\<close> is present and parses and whose \<^verbatim>\<open>end\<close> is
  absent fails with "Range() end time required". The code tests the \<^verbatim>\<open>ok\<close> of \<^verbatim>\<open>start\<close>
  again, so that branch is dead: the absent \<^verbatim>\<open>end\<close> is read as the empty string, and where
  the empty string is no timestamp the error is "cannot parse Range() end time".
\<close>

theorem executeRangeSlice_end_absent:
  assumes "Holder_Frame e index (frameArg c) = Some f"
    and "UintArg c (RowLabel f) = Inr row"
    and "StringArg c ''start'' = Some startTimeStr"
    and "ParseTime e startTimeStr = Some startTime"
    and "Args c ''end'' = None"
    and "ParseTime e [] = None"
  shows "executeRangeSlice e index c sl = Inl (Err ''cannot parse Range() end time'')"
  using assms by (simp add: executeRangeSlice_def Let_def StringArg_def orEmpty_def)

theorem executeRangeSlice_end_absent_witness:
  "executeRangeSlice exampleExecutor ''i''
     (Call ''Range'' [''frame'' \<mapsto> AString ''f'', ''rowID'' \<mapsto> AUint64 9,
                      ''start'' \<mapsto> AString ''2017-01-01T00:00''] []) 0
   = Inl (Err ''cannot parse Range() end time'')"
  by (rule executeRangeSlice_end_absent [where f = exampleFrame and row = "Some 9"
        and startTimeStr = "''2017-01-01T00:00''" and startTime = 0])
     (simp_all add: ex_defs Holder_Frame_def frameArg_def StringArg_def orEmpty_def UintArg_def)

subsection \<open>Map and reduce over no slices\<close>

lemma mapReduce_nothing_in_flight:
  "mapReduce e index [] c opt mapFn reduceFn = (Inl Blocked, [])"
  by (simp add: mapReduce_def mapper_def slicesByNode_def io_bind_def after_def Let_def
        mapReduceLoop.simps)

text \<open>
  C9. The claim: \<^verbatim>\<open>mapReduce\<close> on an empty slice list returns the zero of the reducer. In
  the code the plan for no slices starts no goroutine, and the receive loop compares the
  processed count with \<^verbatim>\<open>len(slices)\<close> only after a receive: it parks on the channel. So do
  the bitmap calls, \<^verbatim>\<open>Count\<close> and the slice queries of \<^verbatim>\<open>TopN\<close>, which go through it.
\<close>

theorem mapReduce_no_slices:
  "mapReduce e index [] c opt mapFn reduceFn = (Inl Blocked, [])
   \<and> executeBitmapCall e index c [] opt = (Inl Blocked, [])
   \<and> executeCount e index (Call name args [child]) [] opt = (Inl Blocked, [])
   \<and> executeTopNSlices e index c [] opt = (Inl Blocked, [])"
  by (simp add: executeBitmapCall_def executeCount_def executeTopNSlices_def io_bind_def
        mapReduce_nothing_in_flight)

text \<open>The empty slice list is reached from \<^verbatim>\<open>Execute\<close>: with explicit slices the inverse
  slices stay nil, and a call on the inverse view is handed exactly those.\<close>

lemma Execute_inverse_explicit_slices:
  "Execute exampleExecutor ''i''
     [Call ''Bitmap'' [''frame'' \<mapsto> AString ''f'', ''columnID'' \<mapsto> AUint64 3] []] [0]
     \<lparr>Remote = True\<rparr>
   = (Inl Blocked, [])"
  by (simp add: Execute_def needsSlices_def hasOnlySetRowAttrs_def ex_defs executeCall_def
        validateCallArgs_def executeBitmapCall_def io_bind_def Holder_Frame_def frameArg_def
        StringArg_def orEmpty_def mapReduce_nothing_in_flight)

subsection \<open>The changed bit of a replicated mutation\<close>

text \<open>Whatever the loop has accumulated, the answer of a remote replica replaces it.\<close>

lemma setBitReplicas_remote_replaces:
  assumes "\<not> Remote opt" and "Host node \<noteq> e_Host e"
    and "fst (exec e node index [c] [] opt) = Inr [VBool b]"
  shows "fst (setBitReplicas e index c f view colID rowID timestamp opt [node] ret) = Inr b"
  using assms by (simp add: io_bind_def after_def)

lemma clearBitReplicas_remote_replaces:
  assumes "\<not> Remote opt" and "Host node \<noteq> e_Host e"
    and "fst (exec e node index [c] [] opt) = Inr [VBool b]"
  shows "fst (clearBitReplicas e index c f view colID rowID opt [node] ret) = Inr b"
  using assms by (simp add: io_bind_def after_def)

text \<open>
  C1. The claim: at the coordinator the returned \<^verbatim>\<open>changed\<close> is the disjunction of the
  replicas' results. The replica loop accumulates a local result (\<^verbatim>\<open>ret = true\<close> when the
  bit changed) but assigns a remote one (\<^verbatim>\<open>ret = res[0].(bool)\<close>): with the replicas \<open>a\<close>
  (local, changed) and \<open>b\<close> (remote, unchanged) both \<^verbatim>\<open>SetBit\<close> and \<^verbatim>\<open>ClearBit\<close> return false.
\<close>

theorem changed_overwritten:
  "Frame_SetBit exampleFrame ViewStandard 7 5 None = Inr True
   \<and> fst (executeSetBitView exampleExecutor ''i'' setBit57 exampleFrame ViewStandard 5 7 None
           \<lparr>Remote = False\<rparr>) = Inr False
   \<and> fst (executeSetBit exampleExecutor ''i'' setBit57 \<lparr>Remote = False\<rparr>) = Inr False
   \<and> Frame_ClearBit exampleFrame ViewStandard 7 5 None = Inr True
   \<and> fst (executeClearBitView exampleExecutor ''i'' clearBit57 exampleFrame ViewStandard 5 7
           \<lparr>Remote = False\<rparr>) = Inr False
   \<and> fst (executeClearBit exampleExecutor ''i'' clearBit57 \<lparr>Remote = False\<rparr>) = Inr False"
  by (simp add: executeSetBitView_def executeSetBit_def executeClearBitView_def
        executeClearBit_def ex_defs setBit57_def clearBit57_def SliceWidth_def exec_def
        io_bind_def after_def decodeResult_def StringArg_def orEmpty_def UintArg_def
        ViewStandard_def ViewInverse_def Let_def)

subsection \<open>A forwarded query sends nothing\<close>

text \<open>The requests of a computation are the second component of its result. Under
  \<^verbatim>\<open>Remote\<close> every function of the executor leaves it empty.\<close>

lemma snd_after: "snd (after reqs r) = reqs @ snd r"
  by (simp add: after_def)

lemma snd_io_bind_silent:
  "snd m = [] \<Longrightarrow> (\<And>v. snd (k v) = []) \<Longrightarrow> snd (io_bind m k) = []"
  by (simp add: io_bind_def after_def split: sum.splits)

lemma setBitReplicas_silent:
  "Remote opt \<Longrightarrow> snd (setBitReplicas e index c f view colID rowID timestamp opt nodes ret) = []"
  by (induction nodes arbitrary: ret) (auto split: sum.splits)

lemma clearBitReplicas_silent:
  "Remote opt \<Longrightarrow> snd (clearBitReplicas e index c f view colID rowID opt nodes ret) = []"
  by (induction nodes arbitrary: ret) (auto split: sum.splits)

lemma executeSetBitView_silent:
  "Remote opt \<Longrightarrow> snd (executeSetBitView e index c f view colID rowID timestamp opt) = []"
  by (simp add: executeSetBitView_def setBitReplicas_silent)

lemma executeClearBitView_silent:
  "Remote opt \<Longrightarrow> snd (executeClearBitView e index c f view colID rowID opt) = []"
  by (simp add: executeClearBitView_def clearBitReplicas_silent)

lemma executeSetBit_silent: "Remote opt \<Longrightarrow> snd (executeSetBit e index c opt) = []"
  by (simp add: executeSetBit_def Let_def executeSetBitView_silent snd_io_bind_silent
        split: option.splits sum.splits)

lemma executeClearBit_silent: "Remote opt \<Longrightarrow> snd (executeClearBit e index c opt) = []"
  by (simp add: executeClearBit_def Let_def executeClearBitView_silent snd_io_bind_silent
        split: option.splits sum.splits)

lemma executeSetRowAttrs_silent: "Remote opt \<Longrightarrow> snd (executeSetRowAttrs e index c opt) = []"
  by (simp add: executeSetRowAttrs_def Let_def split: option.splits sum.splits)

lemma executeSetColumnAttrs_silent:
  "Remote opt \<Longrightarrow> snd (executeSetColumnAttrs e index c opt) = []"
  by (simp add: executeSetColumnAttrs_def Let_def split: option.splits sum.splits prod.splits)

lemma executeBulkSetRowAttrs_silent:
  "Remote opt \<Longrightarrow> snd (executeBulkSetRowAttrs e index calls opt) = []"
  by (simp add: executeBulkSetRowAttrs_def split: option.splits sum.splits)

lemma mapTask_silent: "Remote opt \<Longrightarrow> snd (mapTask e index c opt mapFn reduceFn task) = []"
  by (simp add: mapTask_def Let_def split: sum.splits)

lemma mapper_silent:
  "Remote opt \<Longrightarrow> snd (mapper e nodes index slices c opt mapFn reduceFn) = []"
  by (simp add: mapper_def Let_def mapTask_silent split: sum.splits)

lemma mapReduceLoop_silent:
  "Remote opt \<Longrightarrow>
   snd (mapReduceLoop e index c opt mapFn reduceFn nslices nodes inflight result maxSlice) = []"
proof (induction e index c opt mapFn reduceFn nslices nodes inflight result maxSlice
    rule: mapReduceLoop.induct)
  case (1 e index c opt mapFn reduceFn nslices nodes inflight result maxSlice)
  show ?case
    using "1.prems" "1.IH"
    by (subst mapReduceLoop.simps)
       (auto simp: Let_def snd_after mapper_silent split: option.splits sum.splits)
qed

lemma mapReduce_silent:
  "Remote opt \<Longrightarrow> snd (mapReduce e index slices c opt mapFn reduceFn) = []"
  by (simp add: mapReduce_def Let_def snd_io_bind_silent mapper_silent mapReduceLoop_silent)

lemma find_holds: "find P xs = Some x \<Longrightarrow> P x"
  by (induction xs) (auto split: if_splits)

lemma startNodes_local: "Remote opt \<Longrightarrow> n \<in> set (startNodes e opt) \<Longrightarrow> Host n = e_Host e"
proof (cases "NodeByHost e (e_Host e)")
  case None
  assume "Remote opt" "n \<in> set (startNodes e opt)"
  with None show ?thesis
    by (simp add: startNodes_def)
next
  case (Some m)
  assume "Remote opt" "n \<in> set (startNodes e opt)"
  with Some have "n = m"
    by (simp add: startNodes_def)
  moreover have "Host m = e_Host e"
    using Some find_holds [of "\<lambda>n. Host n = e_Host e" "Cluster_Nodes e" m]
    by (simp add: NodeByHost_def)
  ultimately show ?thesis by simp
qed

lemma attachAttrs_silent: "snd (attachAttrs bm attrs) = []"
  by (simp add: attachAttrs_def split: option.splits)

lemma executeBitmapCall_silent:
  "Remote opt \<Longrightarrow> snd (executeBitmapCall e index c slices opt) = []"
  unfolding executeBitmapCall_def
  by (rule snd_io_bind_silent)
     (simp_all add: mapReduce_silent Let_def attachAttrs_silent split: option.splits sum.splits)

lemma executeCount_silent: "Remote opt \<Longrightarrow> snd (executeCount e index c slices opt) = []"
  by (simp add: executeCount_def snd_io_bind_silent mapReduce_silent)

lemma executeTopNSlices_silent:
  "Remote opt \<Longrightarrow> snd (executeTopNSlices e index c slices opt) = []"
  by (simp add: executeTopNSlices_def snd_io_bind_silent mapReduce_silent Let_def)

lemma executeTopN_silent: "Remote opt \<Longrightarrow> snd (executeTopN e index c slices opt) = []"
  by (simp add: executeTopN_def snd_io_bind_silent executeTopNSlices_silent
        split: option.splits sum.splits)

lemma executeCall_silent: "Remote opt \<Longrightarrow> snd (executeCall e index c slices opt) = []"
  by (simp add: executeCall_def snd_io_bind_silent executeClearBit_silent executeCount_silent
        executeSetBit_silent executeSetRowAttrs_silent executeSetColumnAttrs_silent
        executeTopN_silent executeBitmapCall_silent split: sum.splits)

lemma executeCalls_silent:
  "Remote opt \<Longrightarrow>
   snd (executeCalls e index calls slices inverseSlices columnLabel needs opt) = []"
proof (induction calls arbitrary: slices needs)
  case Nil
  show ?case by simp
next
  case (Cons call calls)
  show ?case
    using Cons.prems
    by (auto simp: executeCall_silent Cons.IH [OF Cons.prems] intro!: snd_io_bind_silent
          split: option.splits sum.splits)
qed

text \<open>
  C2. With \<^verbatim>\<open>ExecOptions.Remote\<close> set the executor sends no request to a peer: not from
  \<^verbatim>\<open>Execute\<close>, from a single call, from \<^verbatim>\<open>mapReduce\<close> (whose candidates are then nodes of the
  local host only), from the replica loop of \<^verbatim>\<open>SetBit\<close> and \<^verbatim>\<open>ClearBit\<close>, nor from the
  fan-out of \<^verbatim>\<open>SetRowAttrs\<close>, \<^verbatim>\<open>SetColumnAttrs\<close> and the bulk path.
\<close>

theorem remote_sends_nothing:
  assumes "Remote opt"
  shows "snd (Execute e index calls slices opt) = []
    \<and> snd (executeCall e index c slices opt) = []
    \<and> (\<forall>n \<in> set (startNodes e opt). Host n = e_Host e)
    \<and> snd (mapReduce e index slices c opt mapFn reduceFn) = []
    \<and> snd (executeSetBit e index c opt) = []
    \<and> snd (executeClearBit e index c opt) = []
    \<and> snd (executeSetRowAttrs e index c opt) = []
    \<and> snd (executeSetColumnAttrs e index c opt) = []
    \<and> snd (executeBulkSetRowAttrs e index calls opt) = []"
proof -
  have "snd (Execute e index calls slices opt) = []"
    using assms
    by (simp add: Execute_def Let_def executeBulkSetRowAttrs_silent executeCalls_silent
          split: option.splits sum.splits prod.splits)
  then show ?thesis
    using assms startNodes_local [OF assms]
    by (simp add: executeCall_silent mapReduce_silent executeSetBit_silent
          executeClearBit_silent executeSetRowAttrs_silent executeSetColumnAttrs_silent
          executeBulkSetRowAttrs_silent)
qed

theorem remote_sends_nothing_witness:
  "Remote \<lparr>Remote = True\<rparr>
   \<and> snd (Execute exampleExecutor ''i'' [setBit57, bitmapRow1] [0] \<lparr>Remote = True\<rparr>) = []
   \<and> snd (executeSetBit exampleExecutor ''i'' setBit57 \<lparr>Remote = True\<rparr>) = []"
  using remote_sends_nothing [of "\<lparr>Remote = True\<rparr>" exampleExecutor "''i''"
      "[setBit57, bitmapRow1]" "[0]" setBit57]
  by simp

text \<open>The coordinator, in contrast, forwards the same \<^verbatim>\<open>SetBit\<close> to the replica \<open>b\<close>, marked
  as remote.\<close>

lemma coordinator_forwards:
  "snd (executeSetBit exampleExecutor ''i'' setBit57 \<lparr>Remote = False\<rparr>)
   = [\<lparr>req_Node = Node ''b'', req_Index = ''i'', req_Query = [setBit57], req_Slices = [],
       req_Remote = True\<rparr>]"
  by (simp add: executeSetBitView_def executeSetBit_def ex_defs setBit57_def SliceWidth_def
        exec_def io_bind_def after_def decodeResult_def StringArg_def orEmpty_def UintArg_def
        ViewStandard_def ViewInverse_def Let_def)

subsection \<open>Failover in the receive loop\<close>












subsection \<open>The two phases of TopN\<close>

lemma sint_small:
  fixes x :: "64 word"
  assumes "x < 2 ^ 63"
  shows "sint x = int (unat x)"
proof -
  have "uint x < uint (2 ^ 63 :: 64 word)"
    using assms by (simp only: word_less_alt)
  then have "uint x < 2 ^ 63"
    by simp
  moreover have "- (2 ^ 63) \<le> uint x"
    by (rule order_trans [of _ 0]) simp_all
  ultimately have "signed_take_bit 63 (uint x) = uint x"
    by (intro signed_take_bit_int_eq_self)
  then show ?thesis
    by (simp add: sint_uint)
qed

lemma io_bind_cong: "(\<And>v. k v = k' v) \<Longrightarrow> io_bind m k = io_bind m k'"
  by (simp add: io_bind_def split: sum.splits)

lemmas topN_eval =
  executeTopNSlices_def mapReduce_def startNodes_def mapper_def slicesByNode_def
  Nodes_Contains_def mapTask_def mapperLocal_def executeTopNSlice_def reducePairs_def
  io_bind_def after_def Let_def UintArg_def UintSliceArg_def StringArg_def ListArg_def
  orEmpty_def orZero_def orNil_def ViewStandard_def MinThreshold_def ex_defs
  mapReduceLoop.simps

text \<open>
  C4, as stated: the refetch runs if and only if phase 1 returned pairs, no \<^verbatim>\<open>ids\<close> argument
  was given and \<^verbatim>\<open>Remote\<close> is false. The code tests \<^verbatim>\<open>len(rowIDs) > 0\<close>, not the presence of
  the argument: with \<^verbatim>\<open>ids=[]\<close> given, phase 1 returns the cached counts of rows 1 and 2,
  the refetch for these two rows returns their exact counts, and the result is that of
  the refetch.
\<close>

theorem topN_refetch_with_ids:
  "Args topNEmptyIds ''ids'' \<noteq> None
   \<and> executeTopNSlices exampleExecutor ''i'' topNEmptyIds [0] \<lparr>Remote = False\<rparr>
       = (Inr [(1, 5), (2, 3)], [])
   \<and> executeTopNSlices exampleExecutor ''i''
        (Call ''TopN'' [''frame'' \<mapsto> AString ''f'', ''ids'' \<mapsto> AUint64s [1, 2]] []) [0]
        \<lparr>Remote = False\<rparr>
       = (Inr [(1, 7), (2, 4)], [])
   \<and> executeTopN exampleExecutor ''i'' topNEmptyIds [0] \<lparr>Remote = False\<rparr>
       = (Inr [(1, 7), (2, 4)], [])"
proof -
  have one: "executeTopNSlices exampleExecutor ''i'' topNEmptyIds [0] \<lparr>Remote = False\<rparr>
       = (Inr [(1, 5), (2, 3)], [])"
    by (simp add: topN_eval topNEmptyIds_def)
  have two: "executeTopNSlices exampleExecutor ''i''
        (Call ''TopN'' [''frame'' \<mapsto> AString ''f'', ''ids'' \<mapsto> AUint64s [1, 2]] []) [0]
        \<lparr>Remote = False\<rparr>
       = (Inr [(1, 7), (2, 4)], [])"
    by (simp add: topN_eval)
  have "sort [1, 2 :: uint64] = [1, 2]"
    by simp
  then have "executeTopN exampleExecutor ''i'' topNEmptyIds [0] \<lparr>Remote = False\<rparr>
       = (Inr [(1, 7), (2, 4)], [])"
    using one two
    by (simp add: executeTopN_def topNEmptyIds_def UintArg_def UintSliceArg_def orNil_def
          orZero_def Pairs_Keys_def io_bind_def after_def)
  with one two show ?thesis
    by (simp add: topNEmptyIds_def)
qed

lemma topNTrim_bounded:
  assumes "n < 2 ^ 63"
  shows "topNTrim n exact = (Inr (truncatePairs n exact), [])"
proof -
  have "(sint n < int (length exact)) = (unat n < length exact)"
    by (simp only: sint_small [OF assms] of_nat_less_iff)
  then show ?thesis
    by (simp add: topNTrim_def truncatePairs_def)
qed

lemma executeTopN_refetch:
  "executeTopN e index c slices opt
   = (case UintSliceArg c ''ids'' of
        Inl err \<Rightarrow> (Inl (Err ''executeTopN: ids''), [])
      | Inr ids \<Rightarrow>
          (case UintArg c ''n'' of
             Inl err \<Rightarrow> (Inl (Err ''executeTopN: n''), [])
           | Inr n \<Rightarrow> topNTwoPhase e index c slices opt (orNil ids) (topNTrim (orZero n))))"
proof -
  have gate: "(length pairs = 0 \<or> length ids > 0 \<or> Remote opt)
      = (\<not> (pairs \<noteq> [] \<and> ids = [] \<and> \<not> Remote opt))"
    for pairs :: "pair list" and ids :: "uint64 list"
    by auto
  show ?thesis
    unfolding executeTopN_def topNTwoPhase_def Let_def Pairs_Keys_def gate
    by (auto split: sum.splits simp: topNTrim_def [abs_def] intro!: io_bind_cong)
qed

text \<open>
  C4, amended: every \<^verbatim>\<open>TopN\<close> call, whatever its \<^verbatim>\<open>n\<close>, runs the refetch if and only if phase 1
  returned a non-empty pair list, the \<^verbatim>\<open>ids\<close> argument is absent or an empty list, and
  \<^verbatim>\<open>Remote\<close> is false, and then finishes with the last statements of \<^verbatim>\<open>executeTopN\<close> on the
  refetched list; a call whose \<^verbatim>\<open>ids\<close> or \<^verbatim>\<open>n\<close> cannot be read fails before phase 1. For \<^verbatim>\<open>n\<close>
  below \<open>2 ^ 63\<close> these last statements return the first \<^verbatim>\<open>n\<close> pairs of the list exactly
  when \<^verbatim>\<open>n\<close> is not zero and the list has more than \<^verbatim>\<open>n\<close> pairs, and all of it otherwise.
\<close>

theorem executeTopN_two_phase:
  "executeTopN e index c slices opt
   = (case UintSliceArg c ''ids'' of
        Inl err \<Rightarrow> (Inl (Err ''executeTopN: ids''), [])
      | Inr ids \<Rightarrow>
          (case UintArg c ''n'' of
             Inl err \<Rightarrow> (Inl (Err ''executeTopN: n''), [])
           | Inr n \<Rightarrow> topNTwoPhase e index c slices opt (orNil ids) (topNTrim (orZero n))))
   \<and> (n < 2 ^ 63 \<longrightarrow> topNTrim n exact = (Inr (truncatePairs n exact), []))"
  using executeTopN_refetch [of e index c slices opt] topNTrim_bounded [of n exact]
  by blast

theorem executeTopN_two_phase_witness:
  "(1 :: uint64) < 2 ^ 63
   \<and> UintSliceArg topNFirst ''ids'' = Inr None
   \<and> UintArg topNFirst ''n'' = Inr (Some 1)
   \<and> executeTopNSlices exampleExecutor ''i'' topNFirst [0] \<lparr>Remote = False\<rparr>
       = (Inr [(1, 5), (2, 3)], [])
   \<and> topNTrim 1 [(1, 7), (2, 4)] = (Inr [(1, 7)], [])
   \<and> executeTopN exampleExecutor ''i'' topNFirst [0] \<lparr>Remote = False\<rparr> = (Inr [(1, 7)], [])"
proof -
  have one: "executeTopNSlices exampleExecutor ''i'' topNFirst [0] \<lparr>Remote = False\<rparr>
       = (Inr [(1, 5), (2, 3)], [])"
    by (simp add: topN_eval topNFirst_def)
  have two: "executeTopNSlices exampleExecutor ''i''
        (Call ''TopN'' [''frame'' \<mapsto> AString ''f'', ''n'' \<mapsto> AUint64 1,
                        ''ids'' \<mapsto> AUint64s [1, 2]] []) [0]
        \<lparr>Remote = False\<rparr>
       = (Inr [(1, 7), (2, 4)], [])"
    by (simp add: topN_eval)
  have args: "UintSliceArg topNFirst ''ids'' = Inr None" "UintArg topNFirst ''n'' = Inr (Some 1)"
    by (simp_all add: topNFirst_def UintSliceArg_def UintArg_def)
  have small: "(1 :: uint64) < 2 ^ 63"
    by simp
  have cut: "truncatePairs 1 [(1, 7), (2, 4)] = [(1, 7)]"
    by (simp add: truncatePairs_def)
  have both: "executeTopN exampleExecutor ''i'' topNFirst [0] \<lparr>Remote = False\<rparr>
       = topNTwoPhase exampleExecutor ''i'' topNFirst [0] \<lparr>Remote = False\<rparr> [] (topNTrim 1)"
    and trim: "topNTrim 1 [(1, 7), (2, 4)] = (Inr [(1, 7)], [])"
    using executeTopN_two_phase [where e = exampleExecutor and index = "''i''"
        and c = topNFirst and slices = "[0]" and opt = "\<lparr>Remote = False\<rparr>" and n = 1
        and exact = "[(1, 7), (2, 4)]"] small
    by (simp_all add: args cut orNil_def orZero_def)
  have "sort [1, 2 :: uint64] = [1, 2]"
    by simp
  then have "topNTwoPhase exampleExecutor ''i'' topNFirst [0] \<lparr>Remote = False\<rparr> [] (topNTrim 1)
       = (Inr [(1, 7)], [])"
    using one two trim
    by (simp add: topNTwoPhase_def topNFirst_def io_bind_def after_def)
  with both one args small trim show ?thesis
    by simp
qed

text \<open>Beyond that bound the guard \<^verbatim>\<open>int(n) < len(trimmedList)\<close> holds for a negative
  \<^verbatim>\<open>int(n)\<close> and the slice expression panics: \<^verbatim>\<open>n=-1\<close> is read as \<open>2 ^ 64 - 1\<close>.\<close>

lemma unat_minus_one_large: "2 < unat (- 1 :: 64 word)"
proof -
  have "(2 :: 64 word) < - 1"
    by simp
  then have "unat (2 :: 64 word) < unat (- 1 :: 64 word)"
    by (simp only: word_less_nat_alt)
  then show ?thesis
    by simp
qed

lemma executeTopN_negative_n:
  "executeTopN exampleExecutor ''i'' topNNegative [0] \<lparr>Remote = False\<rparr>
   = (Inl (Panic ''slice bounds out of range''), [])"
proof -
  have one: "executeTopNSlices exampleExecutor ''i'' topNNegative [0] \<lparr>Remote = False\<rparr>
       = (Inr [(1, 5), (2, 3)], [])"
    by (simp add: topN_eval topNNegative_def)
  have two: "executeTopNSlices exampleExecutor ''i''
        (Call ''TopN'' [''frame'' \<mapsto> AString ''f'', ''n'' \<mapsto> AInt64 (- 1),
                        ''ids'' \<mapsto> AUint64s [1, 2]] []) [0]
        \<lparr>Remote = False\<rparr>
       = (Inr [(1, 7), (2, 4)], [])"
    by (simp add: topN_eval)
  have "sort [1, 2 :: uint64] = [1, 2]"
    by simp
  then show ?thesis
    using one two unat_minus_one_large
    by (simp add: executeTopN_def topNNegative_def UintArg_def UintSliceArg_def orNil_def
          orZero_def Pairs_Keys_def io_bind_def after_def)
qed

subsection \<open>Absent fragments\<close>

lemma errorOf_simps [simp]: "errorOf (Inl err) = Some err" "errorOf (Inr v) = None"
  by (simp_all add: errorOf_def)

lemma Holder_Frame_fragments [simp]:
  "Holder_Frame (e\<lparr>Holder_Fragment := F\<rparr>) index name = Holder_Frame e index name"
  by (simp add: Holder_Frame_def)

lemma executeBitmapSlice_errorOf:
  "errorOf (executeBitmapSlice (e\<lparr>Holder_Fragment := F\<rparr>) index c sl)
   = errorOf (executeBitmapSlice e index c sl)"
  by (simp add: executeBitmapSlice_def Let_def split: option.splits sum.splits)

lemma executeRangeSlice_errorOf:
  "errorOf (executeRangeSlice (e\<lparr>Holder_Fragment := F\<rparr>) index c sl)
   = errorOf (executeRangeSlice e index c sl)"
  by (auto simp: executeRangeSlice_def Let_def split: option.splits sum.splits)

lemma foldChildren_errorOf:
  assumes "\<And>c. c \<in> set inputs \<Longrightarrow>
      errorOf (executeBitmapCallSlice e' index c sl) = errorOf (executeBitmapCallSlice e index c sl)"
  shows "errorOf (foldChildren e' index sl combine inputs i other')
         = errorOf (foldChildren e index sl combine inputs i other)"
  using assms
proof (induction inputs arbitrary: i other other')
  case Nil
  show ?case by simp
next
  case (Cons input inputs)
  have same: "errorOf (executeBitmapCallSlice e' index input sl)
      = errorOf (executeBitmapCallSlice e index input sl)"
    by (rule Cons.prems) simp
  show ?case
  proof (cases "executeBitmapCallSlice e index input sl")
    case (Inl err)
    with same have "executeBitmapCallSlice e' index input sl = Inl err"
      by (cases "executeBitmapCallSlice e' index input sl") simp_all
    with Inl show ?thesis by simp
  next
    case (Inr bm)
    with same obtain bm' where "executeBitmapCallSlice e' index input sl = Inr bm'"
      by (cases "executeBitmapCallSlice e' index input sl") simp_all
    with Inr show ?thesis
      using Cons.IH [of "Suc i"] Cons.prems by simp
  qed
qed

lemma executeBitmapCallSlice_errorOf:
  "errorOf (executeBitmapCallSlice (e\<lparr>Holder_Fragment := F\<rparr>) index c sl)
   = errorOf (executeBitmapCallSlice e index c sl)"
proof (induction c)
  case (Call name args children)
  have children: "errorOf (foldChildren (e\<lparr>Holder_Fragment := F\<rparr>) index sl combine children i other')
      = errorOf (foldChildren e index sl combine children i other)" for combine i other other'
    by (rule foldChildren_errorOf) (rule Call.IH)
  show ?case
    by (simp add: executeBitmapSlice_errorOf executeRangeSlice_errorOf children)
qed

lemma executeTopNSlice_errorOf:
  assumes "executeTopNSlice e index c sl = Inl err"
    and "Holder_Fragment e index (frameArg c) ViewStandard sl = None"
  shows "executeTopNSlice (e\<lparr>Holder_Fragment := F\<rparr>) index c sl = Inl err"
proof -
  have child: "executeBitmapCallSlice e index (hd (Children c)) sl = Inl err' \<Longrightarrow>
      executeBitmapCallSlice (e\<lparr>Holder_Fragment := F\<rparr>) index (hd (Children c)) sl = Inl err'"
    for err'
    using executeBitmapCallSlice_errorOf [where e = e and F = F and index = index
        and c = "hd (Children c)" and sl = sl]
    by (cases "executeBitmapCallSlice (e\<lparr>Holder_Fragment := F\<rparr>) index (hd (Children c)) sl")
       simp_all
  show ?thesis
    using assms child
    by (auto simp: executeTopNSlice_def frameArg_def Let_def split: sum.splits if_splits)
qed

lemma executeTopNSlice_absent:
  assumes "Holder_Fragment e index (frameArg c) ViewStandard sl = None"
  shows "executeTopNSlice e index c sl = Inr []
         \<or> (\<exists>err. executeTopNSlice e index c sl = Inl err)"
  using assms
  by (auto simp: executeTopNSlice_def frameArg_def Let_def split: sum.splits if_splits)

lemma rangeViews_present:
  "rangeViews e index frame sl rowID views bm
   = rangeViews e index frame sl rowID
       (filter (\<lambda>view. Holder_Fragment e index frame view sl \<noteq> None) views) bm"
  by (induction views arbitrary: bm) (auto split: option.splits)

lemma rangeViews_absent:
  "\<forall>view \<in> set views. Holder_Fragment e index frame view sl = None \<Longrightarrow>
   rangeViews e index frame sl rowID views bm = bm"
  by (induction views arbitrary: bm) auto


lemma error_persists:
  assumes "errorOf r' = errorOf r" and "r = Inl err"
  shows "r' = Inl err"
  using assms by (cases r') simp_all

lemma executeBitmapSlice_read_absent:
  assumes "Holder_Fragment e index (frameArg c) (bitmapView e index c) sl = None"
    and "executeBitmapSlice e index c sl = Inr bm"
  shows "bm = NewBitmap"
  using assms
  by (auto simp: executeBitmapSlice_def bitmapView_def Let_def
        split: option.splits sum.splits if_splits)

lemma bitmapView_cases: "bitmapView e index c = ViewStandard \<or> bitmapView e index c = ViewInverse"
  by (simp add: bitmapView_def split: option.splits sum.splits)

lemma rangeViews_other_views [simp]:
  "rangeViews (e\<lparr>ViewsByTimeRange := V\<rparr>) index frame sl rowID views bm
   = rangeViews e index frame sl rowID views bm"
  by (induction views arbitrary: bm) (auto split: option.splits)

lemma Holder_Frame_views [simp]:
  "Holder_Frame (e\<lparr>ViewsByTimeRange := V\<rparr>) index name = Holder_Frame e index name"
  by (simp add: Holder_Frame_def)

lemma rangeViews_presentViews [simp]:
  "rangeViews e index frame sl rowID (presentViews e index frame sl views) bm
   = rangeViews e index frame sl rowID views bm"
  by (induction views arbitrary: bm) (auto simp: presentViews_def split: option.splits)

lemma executeRangeSlice_present_views:
  "executeRangeSlice e index c sl
   = executeRangeSlice
       (e\<lparr>ViewsByTimeRange := (\<lambda>start end q.
            presentViews e index (frameArg c) sl (ViewsByTimeRange e start end q))\<rparr>)
       index c sl"
  unfolding executeRangeSlice_def Let_def
  by (auto split: option.splits sum.splits)

lemma rangeViews_Bits:
  "Bits (rangeViews e index frame sl rowID views bm)
   = Bits bm \<union> (\<Union>view \<in> set views.
        case Holder_Fragment e index frame view sl of
          None \<Rightarrow> {} | Some frag \<Rightarrow> Bits (Row frag rowID))"
  by (induction views arbitrary: bm) (auto simp: Bitmap_Union_def split: option.splits)

lemma executeRangeSlice_Bits:
  assumes "executeRangeSlice e index c sl = Inr bm"
  shows "\<exists>f row startTime endTime.
           Holder_Frame e index (frameArg c) = Some f
           \<and> UintArg c (RowLabel f) = Inr row
           \<and> ParseTime e (orEmpty (StringArg c ''start'')) = Some startTime
           \<and> ParseTime e (orEmpty (StringArg c ''end'')) = Some endTime
           \<and> Bits bm = (if TimeQuantum f = [] then {}
               else (\<Union>view \<in> set (ViewsByTimeRange e startTime endTime (TimeQuantum f)).
                  case Holder_Fragment e index (frameArg c) view sl of
                    None \<Rightarrow> {} | Some frag \<Rightarrow> Bits (Row frag (orZero row))))"
proof -
  from assms obtain f row startTime endTime where
    found: "Holder_Frame e index (frameArg c) = Some f"
      "UintArg c (RowLabel f) = Inr row"
      "ParseTime e (orEmpty (StringArg c ''start'')) = Some startTime"
      "ParseTime e (orEmpty (StringArg c ''end'')) = Some endTime"
    and bm: "bm = (if TimeQuantum f = [] then NewBitmap
               else rangeViews e index (frameArg c) sl (orZero row)
                      (ViewsByTimeRange e startTime endTime (TimeQuantum f)) NewBitmap)"
    by (auto simp: executeRangeSlice_def Let_def split: option.splits sum.splits if_splits)
  have "Bits bm = (if TimeQuantum f = [] then {}
      else (\<Union>view \<in> set (ViewsByTimeRange e startTime endTime (TimeQuantum f)).
         case Holder_Fragment e index (frameArg c) view sl of
           None \<Rightarrow> {} | Some frag \<Rightarrow> Bits (Row frag (orZero row))))"
    unfolding bm by (simp only: rangeViews_Bits NewBitmap_def if_distrib [of Bits])
      (simp del: UN_simps SUP_apply)
  with found show ?thesis
    by blast
qed

text \<open>
  C8. An absent fragment is an empty one and never an error of its own.

  \<^item> \<^verbatim>\<open>Bitmap\<close>: when the fragment of the view that the call reads is absent for the slice,
    whatever the holder has for the other view, the evaluation returns the empty bitmap,
    or else an error that it returns whatever fragments the holder has.
  \<^item> \<^verbatim>\<open>TopN\<close>: when the fragment of the standard view is absent for the slice, the
    evaluation returns the empty pair list, or else such an error.
  \<^item> \<^verbatim>\<open>Range\<close>, whichever of its time views are absent: the evaluation is the one over the
    views whose fragment is present; it fails with the same error, or not at all,
    whatever fragments the holder has; and the bits of its bitmap are those of the row
    in the fragments that are present. With every view absent the bitmap is the empty one.
\<close>

theorem absent_fragment_is_empty:
  "(Holder_Fragment e index (frameArg c) (bitmapView e index c) sl = None \<longrightarrow>
    executeBitmapSlice e index c sl = Inr NewBitmap
    \<or> (\<exists>err. executeBitmapSlice e index c sl = Inl err
          \<and> (\<forall>F. executeBitmapSlice (e\<lparr>Holder_Fragment := F\<rparr>) index c sl = Inl err)))
   \<and> (Holder_Fragment e index (frameArg c) ViewStandard sl = None \<longrightarrow>
    executeTopNSlice e index c sl = Inr []
    \<or> (\<exists>err. executeTopNSlice e index c sl = Inl err
          \<and> (\<forall>F. executeTopNSlice (e\<lparr>Holder_Fragment := F\<rparr>) index c sl = Inl err)))
   \<and> rangeViews e index frame sl rowID views bm
       = rangeViews e index frame sl rowID
           (filter (\<lambda>view. Holder_Fragment e index frame view sl \<noteq> None) views) bm
   \<and> executeRangeSlice e index c sl
       = executeRangeSlice
           (e\<lparr>ViewsByTimeRange := (\<lambda>start end q.
                presentViews e index (frameArg c) sl (ViewsByTimeRange e start end q))\<rparr>)
           index c sl
   \<and> (\<forall>F. errorOf (executeRangeSlice (e\<lparr>Holder_Fragment := F\<rparr>) index c sl)
           = errorOf (executeRangeSlice e index c sl))
   \<and> (\<forall>result. executeRangeSlice e index c sl = Inr result \<longrightarrow>
        (\<exists>f row startTime endTime.
           Holder_Frame e index (frameArg c) = Some f
           \<and> UintArg c (RowLabel f) = Inr row
           \<and> ParseTime e (orEmpty (StringArg c ''start'')) = Some startTime
           \<and> ParseTime e (orEmpty (StringArg c ''end'')) = Some endTime
           \<and> Bits result = (if TimeQuantum f = [] then {}
               else (\<Union>view \<in> set (ViewsByTimeRange e startTime endTime (TimeQuantum f)).
                  case Holder_Fragment e index (frameArg c) view sl of
                    None \<Rightarrow> {} | Some frag \<Rightarrow> Bits (Row frag (orZero row))))))
   \<and> ((\<forall>view. Holder_Fragment e index (frameArg c) view sl = None) \<longrightarrow>
    executeRangeSlice e index c sl = Inr NewBitmap
    \<or> (\<exists>err. executeRangeSlice e index c sl = Inl err
          \<and> (\<forall>F. executeRangeSlice (e\<lparr>Holder_Fragment := F\<rparr>) index c sl = Inl err)))"
proof (intro conjI impI allI)
  assume absent: "Holder_Fragment e index (frameArg c) (bitmapView e index c) sl = None"
  show "executeBitmapSlice e index c sl = Inr NewBitmap
    \<or> (\<exists>err. executeBitmapSlice e index c sl = Inl err
          \<and> (\<forall>F. executeBitmapSlice (e\<lparr>Holder_Fragment := F\<rparr>) index c sl = Inl err))"
  proof (cases "executeBitmapSlice e index c sl")
    case (Inl err)
    have "executeBitmapSlice (e\<lparr>Holder_Fragment := F\<rparr>) index c sl = Inl err" for F
      by (rule error_persists [OF executeBitmapSlice_errorOf Inl])
    with Inl show ?thesis by simp
  next
    case (Inr bm)
    then have "bm = NewBitmap"
      by (rule executeBitmapSlice_read_absent [OF absent])
    with Inr show ?thesis by simp
  qed
next
  assume absent: "Holder_Fragment e index (frameArg c) ViewStandard sl = None"
  show "executeTopNSlice e index c sl = Inr []
    \<or> (\<exists>err. executeTopNSlice e index c sl = Inl err
          \<and> (\<forall>F. executeTopNSlice (e\<lparr>Holder_Fragment := F\<rparr>) index c sl = Inl err))"
    using executeTopNSlice_absent [OF absent] executeTopNSlice_errorOf [OF _ absent]
    by blast
next
  show "rangeViews e index frame sl rowID views bm
       = rangeViews e index frame sl rowID
           (filter (\<lambda>view. Holder_Fragment e index frame view sl \<noteq> None) views) bm"
    by (rule rangeViews_present)
next
  show "executeRangeSlice e index c sl
       = executeRangeSlice
           (e\<lparr>ViewsByTimeRange := (\<lambda>start end q.
                presentViews e index (frameArg c) sl (ViewsByTimeRange e start end q))\<rparr>)
           index c sl"
    by (rule executeRangeSlice_present_views)
next
  fix F
  show "errorOf (executeRangeSlice (e\<lparr>Holder_Fragment := F\<rparr>) index c sl)
           = errorOf (executeRangeSlice e index c sl)"
    by (rule executeRangeSlice_errorOf)
next
  fix result
  assume "executeRangeSlice e index c sl = Inr result"
  then show "\<exists>f row startTime endTime.
           Holder_Frame e index (frameArg c) = Some f
           \<and> UintArg c (RowLabel f) = Inr row
           \<and> ParseTime e (orEmpty (StringArg c ''start'')) = Some startTime
           \<and> ParseTime e (orEmpty (StringArg c ''end'')) = Some endTime
           \<and> Bits result = (if TimeQuantum f = [] then {}
               else (\<Union>view \<in> set (ViewsByTimeRange e startTime endTime (TimeQuantum f)).
                  case Holder_Fragment e index (frameArg c) view sl of
                    None \<Rightarrow> {} | Some frag \<Rightarrow> Bits (Row frag (orZero row))))"
    by (rule executeRangeSlice_Bits)
next
  assume absent: "\<forall>view. Holder_Fragment e index (frameArg c) view sl = None"
  show "executeRangeSlice e index c sl = Inr NewBitmap
    \<or> (\<exists>err. executeRangeSlice e index c sl = Inl err
          \<and> (\<forall>F. executeRangeSlice (e\<lparr>Holder_Fragment := F\<rparr>) index c sl = Inl err))"
  proof (cases "executeRangeSlice e index c sl")
    case (Inl err)
    have "executeRangeSlice (e\<lparr>Holder_Fragment := F\<rparr>) index c sl = Inl err" for F
      by (rule error_persists [OF executeRangeSlice_errorOf Inl])
    with Inl show ?thesis by simp
  next
    case (Inr bm)
    then have "bm = NewBitmap"
      using absent
      by (auto simp: executeRangeSlice_def Let_def rangeViews_absent
            split: option.splits sum.splits if_splits)
    with Inr show ?thesis by simp
  qed
qed

theorem absent_fragment_is_empty_witness:
  "Holder_Fragment otherViewsExecutor ''i'' (frameArg bitmapRow1)
       (bitmapView otherViewsExecutor ''i'' bitmapRow1) 7 = None
   \<and> Holder_Fragment otherViewsExecutor ''i'' (frameArg bitmapRow1) ViewInverse 7 \<noteq> None
   \<and> executeBitmapSlice otherViewsExecutor ''i'' bitmapRow1 7 = Inr NewBitmap
   \<and> Holder_Fragment exampleExecutor ''i'' (frameArg topNFirst) ViewStandard 7 = None
   \<and> executeTopNSlice exampleExecutor ''i'' topNFirst 7 = Inr []
   \<and> ViewsByTimeRange otherViewsExecutor 0 2880 ''D'' = [''standard_20170101'', ''standard_20170102'']
   \<and> presentViews otherViewsExecutor ''i'' (frameArg rangeJanuary) 7
        (ViewsByTimeRange otherViewsExecutor 0 2880 ''D'') = [''standard_20170102'']
   \<and> executeRangeSlice otherViewsExecutor ''i'' rangeJanuary 7
       = Inr \<lparr>Bits = {9}, Attrs = Map.empty\<rparr>
   \<and> (\<exists>result. executeRangeSlice otherViewsExecutor ''i'' rangeJanuary 7 = Inr result
         \<and> Bits result = Bits (Row exampleFragment 9))
   \<and> (\<forall>view. Holder_Fragment exampleExecutor ''i'' (frameArg rangeJanuary) view 7 = None)
   \<and> executeRangeSlice exampleExecutor ''i'' rangeJanuary 7 = Inr NewBitmap"
proof -
  have frames: "frameArg bitmapRow1 = ''f''" "frameArg topNFirst = ''f''"
    "frameArg rangeJanuary = ''f''"
    by (simp_all add: frameArg_def StringArg_def orEmpty_def bitmapRow1_def topNFirst_def
          rangeJanuary_def)
  have absent: "Holder_Fragment exampleExecutor ''i'' ''f'' view 7 = None" for view
    by (simp add: exampleExecutor_def)
  have reads: "bitmapView otherViewsExecutor ''i'' bitmapRow1 = ViewStandard"
    by (simp add: bitmapView_def otherViewsExecutor_def UintArg_def bitmapRow1_def ex_defs)
  have other: "Holder_Fragment otherViewsExecutor ''i'' ''f'' ViewStandard 7 = None"
    "Holder_Fragment otherViewsExecutor ''i'' ''f'' ViewInverse 7 \<noteq> None"
    by (simp_all add: otherViewsExecutor_def ViewStandard_def ViewInverse_def)
  have views: "ViewsByTimeRange otherViewsExecutor 0 2880 ''D''
      = [''standard_20170101'', ''standard_20170102'']"
    by (simp add: otherViewsExecutor_def exampleExecutor_def)
  have present: "presentViews otherViewsExecutor ''i'' ''f'' 7
      [''standard_20170101'', ''standard_20170102''] = [''standard_20170102'']"
    by (simp add: presentViews_def otherViewsExecutor_def)
  have ok: "\<forall>err. executeBitmapSlice otherViewsExecutor ''i'' bitmapRow1 7 \<noteq> Inl err"
    "\<forall>err. executeTopNSlice exampleExecutor ''i'' topNFirst 7 \<noteq> Inl err"
    "\<forall>err. executeRangeSlice exampleExecutor ''i'' rangeJanuary 7 \<noteq> Inl err"
    by (simp_all add: executeBitmapSlice_def executeTopNSlice_def executeRangeSlice_def
          Holder_Frame_def frameArg_def StringArg_def ListArg_def orEmpty_def UintArg_def
          UintSliceArg_def ViewStandard_def ViewInverse_def Let_def ex_defs bitmapRow1_def
          topNFirst_def rangeJanuary_def otherViewsExecutor_def)
  have partial: "executeRangeSlice
      (otherViewsExecutor\<lparr>ViewsByTimeRange := (\<lambda>start end q.
           presentViews otherViewsExecutor ''i'' ''f'' 7
             (ViewsByTimeRange otherViewsExecutor start end q))\<rparr>) ''i'' rangeJanuary 7
      = Inr \<lparr>Bits = {9}, Attrs = Map.empty\<rparr>"
    by (simp add: executeRangeSlice_def Holder_Frame_def frameArg_def StringArg_def
          orEmpty_def orZero_def UintArg_def Let_def ex_defs rangeJanuary_def
          otherViewsExecutor_def presentViews_def NewBitmap_def Bitmap_Union_def)
  have bitmap: "executeBitmapSlice otherViewsExecutor ''i'' bitmapRow1 7 = Inr NewBitmap"
    using absent_fragment_is_empty [THEN conjunct1, of otherViewsExecutor "''i''" bitmapRow1 7]
      ok(1)
    by (simp add: frames reads other)
  have topN: "executeTopNSlice exampleExecutor ''i'' topNFirst 7 = Inr []"
    using absent_fragment_is_empty [THEN conjunct2, THEN conjunct1,
        of exampleExecutor "''i''" topNFirst 7] ok(2)
    by (simp add: frames absent)
  have range: "executeRangeSlice otherViewsExecutor ''i'' rangeJanuary 7
      = Inr \<lparr>Bits = {9}, Attrs = Map.empty\<rparr>"
    using absent_fragment_is_empty [THEN conjunct2, THEN conjunct2, THEN conjunct2,
        THEN conjunct1, of otherViewsExecutor "''i''" rangeJanuary 7]
    by (simp only: frames partial)
  have row: "Holder_Frame otherViewsExecutor ''i'' ''f'' = Some exampleFrame"
    "UintArg rangeJanuary ''rowID'' = Inr (Some 9)"
    "ParseTime otherViewsExecutor (orEmpty (StringArg rangeJanuary ''start'')) = Some 0"
    "ParseTime otherViewsExecutor (orEmpty (StringArg rangeJanuary ''end'')) = Some 2880"
    by (simp_all add: Holder_Frame_def UintArg_def StringArg_def orEmpty_def rangeJanuary_def
          otherViewsExecutor_def exampleExecutor_def exampleIndex_def)
  have bits: "Bits \<lparr>Bits = {9 :: uint64}, Attrs = Map.empty\<rparr> = Bits (Row exampleFragment 9)"
    using absent_fragment_is_empty [THEN conjunct2, THEN conjunct2, THEN conjunct2,
        THEN conjunct2, THEN conjunct2, THEN conjunct1,
        of otherViewsExecutor "''i''" rangeJanuary 7] range
    by (auto simp: frames row views exampleFrame_def orZero_def otherViewsExecutor_def
          exampleFragment_def)
  have none: "executeRangeSlice exampleExecutor ''i'' rangeJanuary 7 = Inr NewBitmap"
    using absent_fragment_is_empty [THEN conjunct2, THEN conjunct2, THEN conjunct2,
        THEN conjunct2, THEN conjunct2, THEN conjunct2,
        of exampleExecutor "''i''" rangeJanuary 7] ok(3)
    by (simp add: frames absent)
  show ?thesis
    using bits
    by (simp only: frames reads other views present bitmap topN range none absent)
      simp
qed

end
